theory Spec2Isabelle
  imports Complex_Main "HOL-Library.AList" "HOL-Library.Char_ord" "HOL-Library.List_Lexorder"
begin

section \<open>Python values\<close>

text \<open>
  The activity module (\<^verbatim>\<open>pytrainer/lib/activity.py\<close>) is Python 2 code over dynamically
  typed values. A value is one of the kinds the module handles: \<^verbatim>\<open>None\<close>, an integer, a
  float or a string. Finite floats are idealised as reals (no rounding, no overflow); the
  two kinds of float that are not numbers are kept as values of their own, since the
  builtin \<^verbatim>\<open>float()\<close> produces them from the texts \<^verbatim>\<open>inf\<close> and \<^verbatim>\<open>nan\<close>.
\<close>

datatype pyval =
    PNone
  | PInt int
  | PFloat real
  | PInf bool    \<comment> \<open>an infinite float; the flag is the sign (True: negative)\<close>
  | PNan
  | PStr string

text \<open>
  Exceptions are values. \<open>InconsistentData\<close> is the bare \<^verbatim>\<open>Exception\<close> that
  \<^verbatim>\<open>_init_from_db\<close> raises when the record query does not return one row; \<open>ParserError\<close>
  is a failure of the external date parser. \<open>NonFinite\<close> is not a Python exception: it marks
  a run that computes with an infinite or undefined float, which the idealisation as reals
  does not follow.
\<close>

datatype pyerr =
    ZeroDivisionError
  | TypeError
  | ValueError
  | AttributeError
  | KeyError
  | InconsistentData
  | ParserError
  | NonFinite

text \<open>Truth value of an object (\<^verbatim>\<open>if not value\<close>).\<close>

fun py_truth :: "pyval \<Rightarrow> bool" where
  "py_truth PNone = False"
| "py_truth (PInt n) = (n \<noteq> 0)"
| "py_truth (PFloat r) = (r \<noteq> 0)"
| "py_truth (PInf b) = True"
| "py_truth PNan = True"
| "py_truth (PStr s) = (s \<noteq> [])"

fun is_int :: "pyval \<Rightarrow> bool" where
  "is_int (PInt n) = True"
| "is_int v = False"

fun num_of :: "pyval \<Rightarrow> real option" where
  "num_of (PInt n) = Some (real_of_int n)"
| "num_of (PFloat r) = Some r"
| "num_of v = None"

fun is_float_special :: "pyval \<Rightarrow> bool" where
  "is_float_special (PInf b) = True"
| "is_float_special PNan = True"
| "is_float_special v = False"

definition is_number :: "pyval \<Rightarrow> bool" where
  "is_number v = (num_of v \<noteq> None \<or> is_float_special v)"

text \<open>
  Python 2 arithmetic. \<^verbatim>\<open>/\<close> on two integers is floor division; with a float operand it
  is true division; a zero divisor raises; an operand that is not a number is a type error.
\<close>

definition py_div :: "pyval \<Rightarrow> pyval \<Rightarrow> pyerr + pyval" where
  "py_div a b =
     (case (a, b) of
        (PInt x, PInt y) \<Rightarrow> if y = 0 then Inl ZeroDivisionError else Inr (PInt (x div y))
      | _ \<Rightarrow>
        (case (num_of a, num_of b) of
           (Some x, Some y) \<Rightarrow> if y = 0 then Inl ZeroDivisionError else Inr (PFloat (x / y))
         | _ \<Rightarrow> if is_number a \<and> is_number b then Inl NonFinite else Inl TypeError))"

definition py_mul :: "pyval \<Rightarrow> pyval \<Rightarrow> pyerr + pyval" where
  "py_mul a b =
     (case (a, b) of
        (PInt x, PInt y) \<Rightarrow> Inr (PInt (x * y))
      | _ \<Rightarrow>
        (case (num_of a, num_of b) of
           (Some x, Some y) \<Rightarrow> Inr (PFloat (x * y))
         | _ \<Rightarrow> if is_number a \<and> is_number b then Inl NonFinite else Inl TypeError))"

text \<open>
  Python 2 orders values of different kinds: \<^verbatim>\<open>None\<close> is below everything, and a number is
  below a string. Two numbers compare by value, two strings bytewise.
\<close>

definition py_gt :: "pyval \<Rightarrow> pyval \<Rightarrow> pyerr + bool" where
  "py_gt a b =
     (case (num_of a, num_of b) of
        (Some x, Some y) \<Rightarrow> Inr (x > y)
      | _ \<Rightarrow>
        if is_float_special a \<or> is_float_special b then Inl NonFinite
        else (case (a, b) of
                (PNone, _) \<Rightarrow> Inr False
              | (_, PNone) \<Rightarrow> Inr True
              | (PStr s, PStr t) \<Rightarrow> Inr (s > t)
              | (PStr s, _) \<Rightarrow> Inr True
              | (_, _) \<Rightarrow> Inr False))"

text \<open>Equality (\<^verbatim>\<open>==\<close>): numbers by value across the two numeric kinds.\<close>

definition py_eq :: "pyval \<Rightarrow> pyval \<Rightarrow> bool" where
  "py_eq a b =
     (case (num_of a, num_of b) of
        (Some x, Some y) \<Rightarrow> x = y
      | _ \<Rightarrow> a \<noteq> PNan \<and> a = b)"

section \<open>The builtins \<^verbatim>\<open>float()\<close>, \<^verbatim>\<open>int()\<close> and \<^verbatim>\<open>%\<close> formatting\<close>

definition is_space :: "char \<Rightarrow> bool" where
  "is_space c = (c \<in> set [CHR '' '', CHR 0x09, CHR 0x0A, CHR 0x0B, CHR 0x0C, CHR 0x0D])"

definition is_digit :: "char \<Rightarrow> bool" where
  "is_digit c = (c \<in> set ''0123456789'')"

definition digit_val :: "char \<Rightarrow> nat" where
  "digit_val c = of_char c - 48"

definition digits_val :: "string \<Rightarrow> nat" where
  "digits_val ds = foldl (\<lambda>a c. 10 * a + digit_val c) 0 ds"

definition strip :: "string \<Rightarrow> string" where
  "strip s = rev (dropWhile is_space (rev (dropWhile is_space s)))"

definition lower_char :: "char \<Rightarrow> char" where
  "lower_char c =
     (if 65 \<le> (of_char c :: nat) \<and> (of_char c :: nat) \<le> 90 then char_of (of_char c + 32 :: nat) else c)"

definition split_sign :: "string \<Rightarrow> bool \<times> string" where
  "split_sign s =
     (case s of
        [] \<Rightarrow> (False, s)
      | c # t \<Rightarrow> if c = CHR ''-'' then (True, t) else if c = CHR ''+'' then (False, t) else (False, s))"

text \<open>The exponent part of a float literal: nothing, or \<^verbatim>\<open>e\<close> with a signed integer.\<close>

definition parse_exponent :: "string \<Rightarrow> int option" where
  "parse_exponent r =
     (case r of
        [] \<Rightarrow> Some 0
      | c # t \<Rightarrow>
          if c = CHR ''e'' \<or> c = CHR ''E'' then
            (case split_sign t of
               (neg, ds) \<Rightarrow>
                 if ds \<noteq> [] \<and> list_all is_digit ds
                 then Some (if neg then - int (digits_val ds) else int (digits_val ds))
                 else None)
          else None)"

definition scale10 :: "real \<Rightarrow> int \<Rightarrow> real" where
  "scale10 m e = (if 0 \<le> e then m * 10 ^ nat e else m / 10 ^ nat (- e))"

text \<open>
  An unsigned decimal literal: digits, an optional point with digits, at least one digit
  in all, an optional exponent, and nothing after it.
\<close>

definition parse_decimal :: "string \<Rightarrow> real option" where
  "parse_decimal s =
     (let ip = takeWhile is_digit s;
          r1 = dropWhile is_digit s;
          fp = (case r1 of [] \<Rightarrow> [] | c # t \<Rightarrow> if c = CHR ''.'' then takeWhile is_digit t else []);
          r2 = (case r1 of [] \<Rightarrow> [] | c # t \<Rightarrow> if c = CHR ''.'' then dropWhile is_digit t else r1)
      in if ip = [] \<and> fp = [] then None
         else (case parse_exponent r2 of
                 None \<Rightarrow> None
               | Some e \<Rightarrow> Some (scale10 (real (digits_val (ip @ fp))) (e - int (length fp)))))"

text \<open>
  \<^verbatim>\<open>float(s)\<close> for a string: surrounding white space is dropped, a sign may lead, and the
  rest is \<^verbatim>\<open>inf\<close>, \<^verbatim>\<open>infinity\<close> or \<^verbatim>\<open>nan\<close> in any case, or a decimal literal. \<open>None\<close> is
  the \<^verbatim>\<open>ValueError\<close>.
\<close>

definition float_of_string :: "string \<Rightarrow> pyval option" where
  "float_of_string s =
     (case split_sign (strip s) of
        (neg, b) \<Rightarrow>
          if map lower_char b = ''inf'' \<or> map lower_char b = ''infinity'' then Some (PInf neg)
          else if map lower_char b = ''nan'' then Some PNan
          else map_option (\<lambda>r. PFloat (if neg then - r else r)) (parse_decimal b))"

fun py_float :: "pyval \<Rightarrow> pyerr + pyval" where
  "py_float PNone = Inl TypeError"
| "py_float (PInt n) = Inr (PFloat (real_of_int n))"
| "py_float (PFloat r) = Inr (PFloat r)"
| "py_float (PInf b) = Inr (PInf b)"
| "py_float PNan = Inr PNan"
| "py_float (PStr s) = (case float_of_string s of None \<Rightarrow> Inl ValueError | Some v \<Rightarrow> Inr v)"

text \<open>\<^verbatim>\<open>int(s)\<close> for a string: white space dropped, a sign, then digits only.\<close>

definition int_of_string :: "string \<Rightarrow> int option" where
  "int_of_string s =
     (case split_sign (strip s) of
        (neg, ds) \<Rightarrow>
          if ds \<noteq> [] \<and> list_all is_digit ds
          then Some (if neg then - int (digits_val ds) else int (digits_val ds))
          else None)"

definition truncate :: "real \<Rightarrow> int" where
  "truncate r = (if 0 \<le> r then \<lfloor>r\<rfloor> else \<lceil>r\<rceil>)"

fun py_int :: "pyval \<Rightarrow> pyerr + int" where
  "py_int PNone = Inl TypeError"
| "py_int (PInt n) = Inr n"
| "py_int (PFloat r) = Inr (truncate r)"
| "py_int (PInf b) = Inl ValueError"
| "py_int PNan = Inl ValueError"
| "py_int (PStr s) = (case int_of_string s of None \<Rightarrow> Inl ValueError | Some n \<Rightarrow> Inr n)"

text \<open>Decimal digits of a natural number (\<^verbatim>\<open>%d\<close>).\<close>

definition digit_char :: "nat \<Rightarrow> char" where
  "digit_char d = ''0123456789'' ! (d mod 10)"

function nat_str :: "nat \<Rightarrow> string" where
  "nat_str n = (if n < 10 then [digit_char n] else nat_str (n div 10) @ [digit_char (n mod 10)])"
  by pat_completeness auto
termination
  by (relation "measure (\<lambda>n. n)") auto

declare nat_str.simps [simp del]

definition int_str :: "int \<Rightarrow> string" where
  "int_str i = (if i < 0 then CHR ''-'' # nat_str (nat (- i)) else nat_str (nat i))"

text \<open>\<^verbatim>\<open>"%02d" % i\<close>: at least two characters, padded with a zero on the left.\<close>

definition fmt_02d :: "int \<Rightarrow> string" where
  "fmt_02d i = (if 0 \<le> i \<and> i < 10 then CHR ''0'' # int_str i else int_str i)"

text \<open>
  \<^verbatim>\<open>"%0.2f" % x\<close>: two digits after the point, the exact value rounded to the nearest
  hundredth, a tie to the even one.
\<close>

definition round_half_even :: "real \<Rightarrow> int" where
  "round_half_even x =
     (let q = \<lfloor>x\<rfloor>; f = x - real_of_int q
      in if f < 1 / 2 then q else if 1 / 2 < f then q + 1 else if even q then q else q + 1)"

definition fmt_2f_real :: "real \<Rightarrow> string" where
  "fmt_2f_real r =
     (let n = nat (round_half_even (\<bar>r\<bar> * 100))
      in (if r < 0 then ''-'' else '''') @ nat_str (n div 100) @ ''.''
           @ [digit_char (n mod 100 div 10), digit_char (n mod 10)])"

fun fmt_2f :: "pyval \<Rightarrow> string" where
  "fmt_2f (PFloat r) = fmt_2f_real r"
| "fmt_2f (PInt n) = fmt_2f_real (real_of_int n)"
| "fmt_2f (PInf b) = (if b then ''-inf'' else ''inf'')"
| "fmt_2f PNan = ''nan''"
| "fmt_2f v = []"

text \<open>\<^verbatim>\<open>s.replace(a, b)\<close> for single characters.\<close>

definition replace :: "char \<Rightarrow> char \<Rightarrow> string \<Rightarrow> string" where
  "replace a b s = map (\<lambda>c. if c = a then b else c) s"

section \<open>Pace encoding\<close>

text \<open>
  \<^verbatim>\<open>pace_to_float\<close> (lines 668-675): the separator is replaced and the text given to
  \<^verbatim>\<open>float()\<close>; a \<^verbatim>\<open>ValueError\<close> gives \<^verbatim>\<open>None\<close>. A value without \<^verbatim>\<open>replace\<close> (not a
  string) is an attribute error.
\<close>

definition pace_to_float :: "pyval \<Rightarrow> pyerr + pyval" where
  "pace_to_float v =
     (case v of
        PStr s \<Rightarrow>
          (case py_float (PStr (replace CHR '':'' CHR ''.'' s)) of
             Inl ValueError \<Rightarrow> Inr PNone
           | Inl e \<Rightarrow> Inl e
           | Inr f \<Rightarrow> Inr f)
      | _ \<Rightarrow> Inl AttributeError)"

text \<open>
  \<^verbatim>\<open>pace_from_float\<close> (lines 677-686): a false value gives the empty string; otherwise the
  value is formatted with two decimals and the point replaced. \<^verbatim>\<open>float()\<close> raises
  \<^verbatim>\<open>ValueError\<close> only for a string, whose \<^verbatim>\<open>str()\<close> is the string itself.
\<close>

definition pace_from_float :: "pyval \<Rightarrow> pyerr + string" where
  "pace_from_float v =
     (if \<not> py_truth v then Inr ''''
      else (case py_float v of
              Inl ValueError \<Rightarrow> (case v of PStr s \<Rightarrow> Inr (replace CHR ''.'' CHR '':'' s) | _ \<Rightarrow> Inl ValueError)
            | Inl e \<Rightarrow> Inl e
            | Inr f \<Rightarrow> Inr (replace CHR ''.'' CHR '':'' (fmt_2f f))))"

section \<open>Unit conversion and series objects\<close>

text \<open>
  Modelled from the spec: the module \<^verbatim>\<open>pytrainer.lib.unitsconversor\<close> is not among the
  sources. The spec (section 8) converts a distance of 10 km to \<open>10 \<times> 0.621371\<close> miles and
  applies the same factor to speed and to pace; a pace per km therefore becomes a pace per
  mile by division. The conversions are arithmetic on the Python value they are given.
\<close>

definition km2miles :: "pyval \<Rightarrow> pyerr + pyval" where
  "km2miles v = py_mul v (PFloat 0.621371)"

definition pacekm2miles :: "pyval \<Rightarrow> pyerr + pyval" where
  "pacekm2miles v = py_div v (PFloat 0.621371)"

text \<open>
  Modelled from the spec: \<^verbatim>\<open>m2feet\<close> of the same absent module. The spec names the unit
  (feet) and gives no factor; the international foot stands in, and no result below
  depends on the number.
\<close>

definition m2feet :: "pyval \<Rightarrow> pyerr + pyval" where
  "m2feet v = py_mul v (PFloat 3.2808399)"

text \<open>
  Modelled from the spec: the class \<^verbatim>\<open>GraphData\<close> is not among the sources. By the spec
  (section 3) a series holds ordered (x, y) pairs and display metadata (title, axis labels,
  colour, rendering style); a point may carry a label and a colour (section 4.2, zones).
  By section 8 a point whose value is absent contributes nothing to its series.
\<close>

record graphdata =
  g_title :: string
  xlabel :: string
  ylabel :: string
  linecolor :: pyval
  y2linecolor :: pyval
  graphType :: string
  show_on_y1 :: bool
  points :: "(pyval \<times> pyval \<times> pyval \<times> pyval) list"

definition GraphData :: "string \<Rightarrow> string \<Rightarrow> string \<Rightarrow> graphdata" where
  "GraphData t xl yl =
     \<lparr> g_title = t, xlabel = xl, ylabel = yl, linecolor = PNone, y2linecolor = PNone,
       graphType = ''line'', show_on_y1 = False, points = [] \<rparr>"

definition set_color :: "pyval \<Rightarrow> pyval \<Rightarrow> graphdata \<Rightarrow> graphdata" where
  "set_color c1 c2 g = g\<lparr> linecolor := c1, y2linecolor := c2 \<rparr>"

definition addPoints :: "graphdata \<Rightarrow> pyval \<Rightarrow> pyval \<Rightarrow> pyval \<Rightarrow> pyval \<Rightarrow> graphdata" where
  "addPoints g x y label color =
     (if y = PNone then g else g\<lparr> points := points g @ [(x, y, label, color)] \<rparr>)"

definition addBars :: "graphdata \<Rightarrow> pyval \<Rightarrow> pyval \<Rightarrow> graphdata" where
  "addBars g x y = g\<lparr> points := points g @ [(x, y, PNone, PNone)] \<rparr>"

definition len :: "graphdata \<Rightarrow> nat" where
  "len g = length (points g)"

definition x_values :: "graphdata \<Rightarrow> pyval list" where
  "x_values g = map fst (points g)"

definition y_values :: "graphdata \<Rightarrow> pyval list" where
  "y_values g = map (\<lambda>p. fst (snd p)) (points g)"

text \<open>A dictionary of series, keyed by name.\<close>

type_synonym series = "(string \<times> graphdata) list"

section \<open>Inputs of the activity\<close>

text \<open>
  Modelled from the spec: the track-log parser \<^verbatim>\<open>Gpx\<close> is not among the sources. By the
  data model (section 3) a trackpoint has distance elapsed (km), time elapsed (s),
  elevation and corrected elevation (m) and velocity (km/h), and an optional heart rate
  and cadence; by section 6 the parser gives the points, the laps, the total distance and
  the total time from laps and from points.
\<close>

record trackpoint =
  elapsed_distance :: real
  time_elapsed :: real
  ele :: real
  correctedElevation :: real
  hr :: "int option"
  cadence :: "int option"
  velocity :: real

text \<open>
  A lap of the parser is a tuple; \<^verbatim>\<open>_get_laps_from_gpx\<close> reads its positions 0 to 6. The
  elapsed time is text and the distance a float in metres (section 4.3).
\<close>

record gpxlap =
  lap0 :: string
  lap1 :: pyval
  lap2 :: pyval
  lap3 :: pyval
  lap4 :: real
  lap5 :: pyval
  lap6 :: pyval

record gpx =
  trkpoints :: "trackpoint list"
  total_dist :: real
  total_dist_trkpts :: real
  total_time :: real
  total_time_trkpts :: real
  getLaps :: "gpxlap list"

text \<open>
  A lap row, as the mapping \<^verbatim>\<open>select_dict\<close> returns it. The elapsed time is stored as text,
  the distance in metres; a key that \<^verbatim>\<open>_get_laps_from_gpx\<close> does not set holds \<open>PNone\<close>
  (no code reads it).
\<close>

record lap =
  l_id_lap :: pyval
  l_record :: pyval
  l_elapsed_time :: string
  l_distance :: real
  l_start_lat :: pyval
  l_start_lon :: pyval
  l_end_lat :: pyval
  l_end_lon :: pyval
  l_calories :: pyval
  l_lap_number :: pyval
  l_intensity :: pyval
  l_avg_hr :: pyval
  l_max_hr :: pyval
  l_max_speed :: pyval
  l_laptrigger :: pyval
  l_comments :: pyval

text \<open>A row of the record query: one cell for each of the twenty columns of \<^verbatim>\<open>cols\<close>.\<close>

record row =
  col_sports_name :: pyval
  col_id_sports :: pyval
  col_date :: pyval
  col_distance :: pyval
  col_time :: pyval
  col_beats :: pyval
  col_comments :: pyval
  col_average :: pyval
  col_calories :: pyval
  col_id_record :: pyval
  col_title :: pyval
  col_upositive :: pyval
  col_unegative :: pyval
  col_maxspeed :: pyval
  col_maxpace :: pyval
  col_pace :: pyval
  col_maxbeats :: pyval
  col_date_time_utc :: pyval
  col_date_time_local :: pyval
  col_sports_max_pace :: pyval

text \<open>A point in time, as the external date parser returns it.\<close>

datatype datetime = Datetime int

text \<open>A heart-rate zone of the profile: lower bound, upper bound, colour, label.\<close>

type_synonym zone = "pyval \<times> pyval \<times> pyval \<times> pyval"

text \<open>
  The collaborators reached through \<^verbatim>\<open>pytrainer_main\<close>, all outside the module: the
  profile (measurement flag, maximum heart rate, zones), the track-log file of an
  identifier with its parse (\<open>None\<close>: no such file), the two database queries, the external
  date parser with the local time zone and clock format, and \<^verbatim>\<open>Date.second2time\<close>.
\<close>

record pytrainer_main =
  prf_us_system :: pyval
  getMaxHR :: int
  getZones :: "zone list"
  gpx_lookup :: "pyval \<Rightarrow> (string \<times> gpx) option"
  ddbb_select :: "pyval \<Rightarrow> row list"
  ddbb_select_dict :: "pyval \<Rightarrow> lap list option"
  dateutil_parse :: "pyval \<Rightarrow> pyerr + datetime"
  astimezone_local :: "datetime \<Rightarrow> datetime"
  strftime_X :: "datetime \<Rightarrow> string"
  second2time :: "int \<Rightarrow> int \<times> int \<times> int"

section \<open>The activity\<close>

text \<open>
  The attributes of an \<^verbatim>\<open>Activity\<close>. An attribute that is not yet assigned holds \<open>PNone\<close>,
  \<open>None\<close> or an empty value. The raw parse tree and track list of the track log, and the
  axis limits and grid flags of the display, are constants of no computation and are left
  out.
\<close>

record activity =
  a_id :: pyval
  us_system :: bool
  distance_unit :: string
  speed_unit :: string
  pace_unit :: string
  height_unit :: string
  units :: "(string \<times> string) list"
  gpx_file :: "string option"
  gpx_obj :: "gpx option"
  tracklist :: "trackpoint list option"
  laps :: "lap list option"
  has_data :: bool
  distance_data :: series
  time_data :: series
  time_pause :: real
  pace_limit :: pyval
  starttime :: pyval
  gpx_distance :: pyval
  sport_name :: pyval
  sport_id :: pyval
  title :: pyval
  date :: pyval
  time :: int
  time_tuple :: "int \<times> int \<times> int"
  beats :: int
  comments :: pyval
  calories :: int
  id_record :: pyval
  maxbeats :: int
  date_time_local :: pyval
  date_time_utc :: pyval
  date_time :: "datetime option"
  distance :: pyval
  average :: pyval
  upositive :: pyval
  unegative :: pyval
  maxspeed :: pyval
  maxpace :: pyval
  pace :: pyval
  lap_distance :: "graphdata option"
  lap_time :: "graphdata option"
  x_axis :: string
  show_laps :: bool

datatype constructed = Unpopulated pyval | Populated activity

text \<open>Sequencing of statements that may raise.\<close>

definition err_bind :: "pyerr + 'a \<Rightarrow> ('a \<Rightarrow> pyerr + 'b) \<Rightarrow> pyerr + 'b" where
  "err_bind m f = (case m of Inl e \<Rightarrow> Inl e | Inr v \<Rightarrow> f v)"

text \<open>
  A \<^verbatim>\<open>try\<close> whose handler catches every exception and assigns a default. A run that has
  left the reals is not brought back by it.
\<close>

definition try_except :: "pyerr + 'a \<Rightarrow> 'a \<Rightarrow> pyerr + 'a" where
  "try_except m d = (case m of Inl NonFinite \<Rightarrow> Inl NonFinite | Inl e \<Rightarrow> Inr d | Inr v \<Rightarrow> Inr v)"

text \<open>\<^verbatim>\<open>_set_units\<close> (lines 195-206).\<close>

definition set_units :: "activity \<Rightarrow> activity" where
  "set_units self =
     (let self1 =
            (if us_system self
             then self\<lparr> distance_unit := ''miles'', speed_unit := ''miles/h'',
                        pace_unit := ''min/mile'', height_unit := ''feet'' \<rparr>
             else self\<lparr> distance_unit := ''km'', speed_unit := ''km/h'',
                        pace_unit := ''min/km'', height_unit := ''m'' \<rparr>)
      in self1\<lparr> units :=
            [(''distance'', distance_unit self1), (''average'', speed_unit self1),
             (''upositive'', height_unit self1), (''unegative'', height_unit self1),
             (''maxspeed'', speed_unit self1), (''pace'', pace_unit self1),
             (''maxpace'', pace_unit self1)] \<rparr>)"

text \<open>
  \<^verbatim>\<open>_init_from_gpx_file\<close> (lines 208-226): the track list and distance of the parsed file,
  and the time without activity when the duration by points exceeds the duration by laps
  by more than four seconds.
\<close>

definition init_from_gpx_file :: "pytrainer_main \<Rightarrow> activity \<Rightarrow> activity" where
  "init_from_gpx_file main self =
     (case gpx_lookup main (a_id self) of
        None \<Rightarrow> self
      | Some (path, g) \<Rightarrow>
          (let self1 = self\<lparr> gpx_obj := Some g, tracklist := Some (trkpoints g),
                             gpx_distance := PFloat (total_dist g) \<rparr>;
               time_diff = total_time_trkpts g - total_time g;
               acceptable_lapse = 4
           in if time_diff > acceptable_lapse then self1\<lparr> time_pause := time_diff \<rparr> else self1))"

text \<open>\<^verbatim>\<open>_float\<close> and \<^verbatim>\<open>_int\<close> (lines 536-548): a cast that gives zero instead of raising.\<close>

definition self_float :: "pyval \<Rightarrow> pyval" where
  "self_float v = (case py_float v of Inl e \<Rightarrow> PFloat 0 | Inr f \<Rightarrow> f)"

definition self_int :: "pyval \<Rightarrow> int" where
  "self_int v = (case py_int v of Inl e \<Rightarrow> 0 | Inr n \<Rightarrow> n)"

text \<open>Position of the first element equal to the given one (\<^verbatim>\<open>list.index\<close>).\<close>

fun index_of :: "'a list \<Rightarrow> 'a \<Rightarrow> nat" where
  "index_of [] y = 0"
| "index_of (x # xs) y = (if x = y then 0 else Suc (index_of xs y))"

text \<open>
  \<^verbatim>\<open>_get_laps_from_gpx\<close> (lines 373-396): one lap mapping for each lap of the track log. Each
  of them is handed to \<^verbatim>\<open>insertLaps\<close>; the caller of the model receives them as the list of
  inserted laps.
\<close>

definition get_laps_from_gpx :: "activity \<Rightarrow> pyerr + lap list" where
  "get_laps_from_gpx self =
     (case gpx_obj self of
        None \<Rightarrow> Inl AttributeError
      | Some g \<Rightarrow>
          Inr (map (\<lambda>l.
                 \<lparr> l_id_lap = PNone, l_record = a_id self, l_elapsed_time = lap0 l,
                   l_distance = lap4 l, l_start_lat = lap5 l, l_start_lon = lap6 l,
                   l_end_lat = lap1 l, l_end_lon = lap2 l, l_calories = lap3 l,
                   l_lap_number = PInt (int (index_of (getLaps g) l)), l_intensity = PNone,
                   l_avg_hr = PNone, l_max_hr = PNone, l_max_speed = PNone,
                   l_laptrigger = PNone, l_comments = PNone \<rparr>)
               (getLaps g)))"

text \<open>\<^verbatim>\<open>"%d" % v\<close> raises unless the value is a number.\<close>

definition fmt_d_check :: "pyval \<Rightarrow> pyerr + unit" where
  "fmt_d_check v =
     (if num_of v \<noteq> None then Inr () else if is_float_special v then Inl ValueError else Inl TypeError)"

text \<open>
  \<^verbatim>\<open>_init_from_db\<close> (lines 228-305). The record query must return one row; any other count
  raises. The second component of the result is the list of laps handed to
  \<^verbatim>\<open>insertLaps\<close>.
\<close>

definition init_from_db :: "pytrainer_main \<Rightarrow> activity \<Rightarrow> pyerr + activity \<times> lap list" where
  "init_from_db main self =
     (let db_result = ddbb_select main (a_id self) in
      if length db_result = 1 then
        (let r = db_result ! 0;
             self1 = self\<lparr>
               sport_name := (if col_sports_name r = PNone then PStr [] else col_sports_name r),
               sport_id := col_id_sports r,
               pace_limit := (if py_eq (col_sports_max_pace r) (PInt 0) \<or> py_eq (col_sports_max_pace r) (PStr [])
                              then PNone else col_sports_max_pace r),
               title := (if col_title r = PNone then PStr [] else col_title r),
               date := col_date r,
               time := self_int (col_time r),
               time_tuple := second2time main (self_int (col_time r)),
               beats := self_int (col_beats r),
               comments := (if col_comments r = PNone then PStr [] else col_comments r),
               calories := self_int (col_calories r),
               id_record := col_id_record r,
               maxbeats := self_int (col_maxbeats r),
               date_time_local := col_date_time_local r,
               date_time_utc := col_date_time_utc r \<rparr>
         in err_bind
              (if date_time_local self1 \<noteq> PNone
               then dateutil_parse main (date_time_local self1)
               else err_bind (dateutil_parse main (date_time_utc self1))
                      (\<lambda>tmpDateTime. Inr (astimezone_local main tmpDateTime)))
              (\<lambda>dt.
                 let self2 = self1\<lparr>
                       date_time := Some dt,
                       starttime := PStr (strftime_X main dt),
                       distance := (if \<not> py_truth (self_float (col_distance r)) then gpx_distance self1
                                    else self_float (col_distance r)),
                       average := self_float (col_average r),
                       upositive := self_float (col_upositive r),
                       unegative := self_float (col_unegative r),
                       maxspeed := self_float (col_maxspeed r),
                       maxpace := self_float (col_maxpace r),
                       pace := self_float (col_pace r),
                       has_data := True \<rparr>;
                     ls = ddbb_select_dict main (a_id self2)
                 in if ls = None \<or> ls = Some [] then
                      err_bind (fmt_d_check (a_id self2))
                        (\<lambda>u. if gpx_file self2 \<noteq> None
                              then err_bind (get_laps_from_gpx self2)
                                     (\<lambda>gl. Inr (self2\<lparr> laps := Some gl \<rparr>, gl))
                              else Inr (self2\<lparr> laps := ls \<rparr>, []))
                    else Inr (self2\<lparr> laps := ls \<rparr>, [])))
      else Inl InconsistentData)"

section \<open>Series generation\<close>

text \<open>
  One statement of the form \<^verbatim>\<open>self.distance_data[name].addPoints(x=..., y=...)\<close>: the
  dictionary it addresses, the key, and the two argument expressions.
\<close>

datatype target = Dist | Time

type_synonym stmt = "target \<times> string \<times> (pyerr + pyval) \<times> (pyerr + pyval)"

fun run_adds ::
  "(graphdata \<Rightarrow> pyval \<Rightarrow> pyval \<Rightarrow> graphdata) \<Rightarrow> stmt list \<Rightarrow> series \<times> series \<Rightarrow> pyerr + series \<times> series"
where
  "run_adds add [] st = Inr st"
| "run_adds add ((tg, name, x, y) # rest) (dd, td) =
     (case map_of (if tg = Dist then dd else td) name of
        None \<Rightarrow> Inl KeyError
      | Some g \<Rightarrow>
          err_bind x (\<lambda>xv. err_bind y (\<lambda>yv.
            run_adds add rest
              (if tg = Dist then (AList.update name (add g xv yv) dd, td)
               else (dd, AList.update name (add g xv yv) td)))))"

text \<open>
  The pace limit (lines 473-475 and 354-356): a pace above a limit that is set becomes
  the given zero.
\<close>

definition limit_pace :: "pyval \<Rightarrow> pyval \<Rightarrow> pyval \<Rightarrow> pyerr + pyval" where
  "limit_pace limit zero p =
     (if limit \<noteq> PNone then err_bind (py_gt p limit) (\<lambda>b. Inr (if b then zero else p)) else Inr p)"

text \<open>The pace of a trackpoint (lines 471-478), from its velocity.\<close>

definition point_pace :: "pyval \<Rightarrow> pyval \<Rightarrow> pyerr + pyval" where
  "point_pace limit vel =
     try_except (err_bind (py_div (PInt 60) vel) (limit_pace limit (PInt 0))) (PInt 0)"

definition opt_int :: "int option \<Rightarrow> pyval" where
  "opt_int v = (case v of None \<Rightarrow> PNone | Some n \<Rightarrow> PInt n)"

text \<open>The heart rate as a percentage of the maximum (lines 479-482).\<close>

definition point_hr_p :: "int \<Rightarrow> pyval \<Rightarrow> pyerr + pyval" where
  "point_hr_p maxhr h =
     try_except
       (err_bind (py_float h) (\<lambda>f. err_bind (py_div f (PInt maxhr)) (\<lambda>q. py_mul q (PInt 100))))
       (PInt 0)"

text \<open>The statements of the loop body for one trackpoint (lines 483-509), in their order.\<close>

definition point_stmts :: "activity \<Rightarrow> trackpoint \<Rightarrow> pyval \<Rightarrow> pyval \<Rightarrow> stmt list" where
  "point_stmts self track pc hr_p =
     (let d = PFloat (elapsed_distance track);
          t = Inr (PFloat (time_elapsed track));
          e = PFloat (ele track);
          ce = PFloat (correctedElevation track);
          v = PFloat (velocity track);
          h = Inr (opt_int (hr track));
          c = Inr (opt_int (cadence track))
      in (if us_system self then
            [(Dist, ''elevation'', km2miles d, m2feet e),
             (Dist, ''cor_elevation'', km2miles d, m2feet ce),
             (Dist, ''speed'', km2miles d, km2miles v),
             (Dist, ''pace'', km2miles d, pacekm2miles pc),
             (Dist, ''hr'', km2miles d, h),
             (Dist, ''hr_p'', km2miles d, Inr hr_p),
             (Dist, ''cadence'', km2miles d, c),
             (Time, ''elevation'', t, m2feet e),
             (Time, ''cor_elevation'', t, m2feet ce),
             (Time, ''speed'', t, km2miles v),
             (Time, ''pace'', t, pacekm2miles pc)]
          else
            [(Dist, ''elevation'', Inr d, Inr e),
             (Dist, ''cor_elevation'', Inr d, Inr ce),
             (Dist, ''speed'', Inr d, Inr v),
             (Dist, ''pace'', Inr d, Inr pc),
             (Dist, ''hr'', Inr d, h),
             (Dist, ''hr_p'', Inr d, Inr hr_p),
             (Dist, ''cadence'', Inr d, c),
             (Time, ''elevation'', t, Inr e),
             (Time, ''cor_elevation'', t, Inr ce),
             (Time, ''speed'', t, Inr v),
             (Time, ''pace'', t, Inr pc)])
         @ [(Time, ''hr'', t, h), (Time, ''hr_p'', t, Inr hr_p), (Time, ''cadence'', t, c)])"

definition add_point :: "graphdata \<Rightarrow> pyval \<Rightarrow> pyval \<Rightarrow> graphdata" where
  "add_point g x y = addPoints g x y PNone PNone"

fun point_loop ::
  "activity \<Rightarrow> int \<Rightarrow> trackpoint list \<Rightarrow> series \<times> series \<Rightarrow> pyerr + series \<times> series"
where
  "point_loop self maxhr [] st = Inr st"
| "point_loop self maxhr (track # rest) st =
     err_bind (point_pace (pace_limit self) (PFloat (velocity track))) (\<lambda>pc.
     err_bind (point_hr_p maxhr (opt_int (hr track))) (\<lambda>hr_p.
     err_bind (run_adds add_point (point_stmts self track pc hr_p) st)
       (point_loop self maxhr rest)))"

text \<open>
  Removal of the series without values (lines 510-518): for each key of the dictionary,
  the entry is deleted when its series has length zero.
\<close>

definition prune :: "series \<Rightarrow> series" where
  "prune d =
     fold (\<lambda>item acc. case map_of acc item of
                          None \<Rightarrow> acc
                        | Some g \<Rightarrow> if len g = 0 then AList.delete item acc else acc)
          (map fst d) d"

definition axis_label :: "string \<Rightarrow> string \<Rightarrow> string" where
  "axis_label what unit = what @ '' ('' @ unit @ '')''"

text \<open>The fourteen empty series created at lines 404-469.\<close>

definition point_series :: "activity \<Rightarrow> bool \<Rightarrow> series" where
  "point_series self by_time =
     (let xl = (if by_time then ''Time (seconds)'' else axis_label ''Distance'' (distance_unit self));
          mk = (\<lambda>t yl c. set_color (PStr c) (PStr c) (GraphData t xl yl))
      in [(''elevation'', (mk ''Elevation'' (axis_label ''Elevation'' (height_unit self)) ''#ff0000'')
                            \<lparr> show_on_y1 := True \<rparr>),
          (''cor_elevation'', mk ''Corrected Elevation''
                                (axis_label ''Corrected Elevation'' (height_unit self)) ''#993333''),
          (''speed'', mk ''Speed'' (axis_label ''Speed'' (speed_unit self)) ''#000000''),
          (''pace'', mk ''Pace'' (axis_label ''Pace'' (pace_unit self)) ''#0000ff''),
          (''hr'', mk ''Heart Rate'' (axis_label ''Heart Rate'' ''bpm'') ''#00ff00''),
          (''hr_p'', mk ''Heart Rate (% of max)'' (axis_label ''Heart Rate'' ''%'') ''#00ff00''),
          (''cadence'', mk ''Cadence'' (axis_label ''Cadence'' ''rpm'') ''#cc00ff'')])"

text \<open>The heart-rate zones (lines 521-534), added when a heart-rate series is left.\<close>

definition zone_points :: "zone list \<Rightarrow> (pyval \<times> pyval \<times> pyval \<times> pyval) list" where
  "zone_points zs = map (\<lambda>(z0, z1, z2, z3). (z0, z1, z3, z2)) zs"

definition add_zones :: "activity \<Rightarrow> zone list \<Rightarrow> series \<times> series \<Rightarrow> series \<times> series" where
  "add_zones self zones st =
     (case st of (dd, td) \<Rightarrow>
        if map_of dd ''hr'' \<noteq> None then
          (let yl = axis_label ''Heart Rate'' ''bpm'';
               gd = set_color PNone PNone
                      ((GraphData ''Heart Rate zone'' (axis_label ''Distance'' (distance_unit self)) yl)
                         \<lparr> graphType := ''hspan'' \<rparr>);
               gt = set_color PNone PNone (GraphData ''Heart Rate zone'' ''Time (seconds)'' yl);
               fill = (\<lambda>g. fold (\<lambda>(x, y, l, c) acc. addPoints acc x y l c) (zone_points zones) g)
           in (AList.update ''hr_z'' (fill gd) dd, AList.update ''hr_z'' (fill gt) td))
        else (dd, td))"

text \<open>\<^verbatim>\<open>_init_graph_data\<close> (lines 398-534).\<close>

definition init_graph_data :: "pytrainer_main \<Rightarrow> activity \<Rightarrow> pyerr + activity" where
  "init_graph_data main self =
     (case tracklist self of
        None \<Rightarrow> Inr self
      | Some tracks \<Rightarrow>
          err_bind
            (point_loop self (getMaxHR main) tracks
               (fold (\<lambda>(k, g). AList.update k g) (point_series self False) (distance_data self),
                fold (\<lambda>(k, g). AList.update k g) (point_series self True) (time_data self)))
            (\<lambda>(dd, td).
               case add_zones self (getZones main) (prune dd, prune td) of
                 (dd', td') \<Rightarrow> Inr (self\<lparr> distance_data := dd', time_data := td' \<rparr>)))"

section \<open>Lap graphs\<close>

text \<open>The values derived from one lap (lines 344-353).\<close>

definition lap_time_of :: "lap \<Rightarrow> pyerr + pyval" where
  "lap_time_of l = py_float (PStr (l_elapsed_time l))"

definition lap_dist_of :: "lap \<Rightarrow> pyerr + pyval" where
  "lap_dist_of l = py_div (PFloat (l_distance l)) (PInt 1000)"

definition lap_pace :: "pyval \<Rightarrow> pyval \<Rightarrow> pyerr + pyval" where
  "lap_pace tm dst =
     (case err_bind (py_mul (PInt 60) dst) (py_div tm) of
        Inl ZeroDivisionError \<Rightarrow> Inr (PFloat 0)
      | r \<Rightarrow> r)"

definition lap_avg_speed :: "pyval \<Rightarrow> pyval \<Rightarrow> pyerr + pyval" where
  "lap_avg_speed tm dst = try_except (err_bind (py_div tm (PInt 3600)) (py_div dst)) (PFloat 0)"

definition lap_stmts :: "activity \<Rightarrow> pyval \<Rightarrow> pyval \<Rightarrow> pyval \<Rightarrow> pyval \<Rightarrow> stmt list" where
  "lap_stmts self tm dst pc avg_speed =
     (if us_system self then
        [(Dist, ''pace_lap'', km2miles dst, pacekm2miles pc),
         (Time, ''pace_lap'', Inr tm, pacekm2miles pc),
         (Dist, ''speed_lap'', km2miles dst, km2miles avg_speed),
         (Time, ''speed_lap'', Inr tm, km2miles avg_speed)]
      else
        [(Dist, ''pace_lap'', Inr dst, Inr pc),
         (Time, ''pace_lap'', Inr tm, Inr pc),
         (Dist, ''speed_lap'', Inr dst, Inr avg_speed),
         (Time, ''speed_lap'', Inr tm, Inr avg_speed)])"

text \<open>
  The loop over the laps (lines 343-370). The state is the two marker series and the two
  dictionaries.
\<close>

fun lap_loop ::
  "activity \<Rightarrow> lap list \<Rightarrow> graphdata \<times> graphdata \<times> series \<times> series
     \<Rightarrow> pyerr + graphdata \<times> graphdata \<times> series \<times> series"
where
  "lap_loop self [] st = Inr st"
| "lap_loop self (l # rest) (ld, lt, dd, td) =
     err_bind (lap_time_of l) (\<lambda>tm.
     err_bind (lap_dist_of l) (\<lambda>dst.
     err_bind (lap_pace tm dst) (\<lambda>p0.
     err_bind (lap_avg_speed tm dst) (\<lambda>avg_speed.
     err_bind (limit_pace (pace_limit self) (PFloat 0) p0) (\<lambda>pc.
     err_bind (if us_system self then km2miles dst else Inr dst) (\<lambda>x.
     err_bind (run_adds addBars (lap_stmts self tm dst pc avg_speed) (dd, td)) (\<lambda>(dd', td').
       lap_loop self rest (addBars ld x (PInt 10), addBars lt tm (PInt 10), dd', td'))))))))"

definition lap_series :: "activity \<Rightarrow> bool \<Rightarrow> series" where
  "lap_series self by_time =
     (let xl = (if by_time then ''Time (seconds)'' else axis_label ''Distance'' (distance_unit self));
          mk = (\<lambda>t yl c. (set_color (PStr c) (PStr c) (GraphData t xl yl)) \<lparr> graphType := ''bar'' \<rparr>)
      in [(''pace_lap'', mk ''Pace by Lap'' (axis_label ''Pace'' (pace_unit self)) ''#99CCFF''),
          (''speed_lap'', mk ''Speed by Lap'' (axis_label ''Speed'' (speed_unit self)) ''#336633'')])"

definition lap_marker :: graphdata where
  "lap_marker = (set_color (PStr ''#CCFF00'') (PStr ''#CCFF00'') (GraphData [] [] []))
                  \<lparr> graphType := ''vspan'' \<rparr>"

text \<open>\<^verbatim>\<open>_generate_per_lap_graphs\<close> (lines 307-371).\<close>

definition generate_per_lap_graphs :: "activity \<Rightarrow> pyerr + activity" where
  "generate_per_lap_graphs self =
     (case laps self of
        None \<Rightarrow> Inr self
      | Some ls \<Rightarrow>
          err_bind
            (lap_loop self ls
               (lap_marker, lap_marker,
                fold (\<lambda>(k, g). AList.update k g) (lap_series self False) (distance_data self),
                fold (\<lambda>(k, g). AList.update k g) (lap_series self True) (time_data self)))
            (\<lambda>(ld, lt, dd, td).
               Inr (self\<lparr> lap_distance := Some ld, lap_time := Some lt,
                          distance_data := dd, time_data := td \<rparr>)))"

section \<open>The constructor\<close>

text \<open>The attributes as \<^verbatim>\<open>__init__\<close> sets them before loading (lines 94-111).\<close>

definition blank :: "pytrainer_main \<Rightarrow> pyval \<Rightarrow> activity" where
  "blank main ident =
     \<lparr> a_id = ident, us_system = py_eq (prf_us_system main) (PStr ''True''),
       distance_unit = [], speed_unit = [], pace_unit = [], height_unit = [], units = [],
       gpx_file = None, gpx_obj = None, tracklist = None, laps = None, has_data = False,
       distance_data = [], time_data = [], time_pause = 0, pace_limit = PNone,
       starttime = PNone, gpx_distance = PNone, sport_name = PNone, sport_id = PNone,
       title = PNone, date = PNone, time = 0, time_tuple = (0, 0, 0), beats = 0,
       comments = PNone, calories = 0, id_record = PNone, maxbeats = 0,
       date_time_local = PNone, date_time_utc = PNone, date_time = None, distance = PNone,
       average = PNone, upositive = PNone, unegative = PNone, maxspeed = PNone,
       maxpace = PNone, pace = PNone, lap_distance = None, lap_time = None,
       x_axis = [], show_laps = False \<rparr>"

text \<open>
  \<^verbatim>\<open>__init__\<close> (lines 84-134). Without an identifier, or without the main object, the
  constructor returns at once and the instance has its \<^verbatim>\<open>id\<close> attribute only. The second
  component of the result lists the laps handed to \<^verbatim>\<open>insertLaps\<close>.
\<close>

definition init :: "pytrainer_main option \<Rightarrow> pyval \<Rightarrow> pyerr + constructed \<times> lap list" where
  "init pytrainer_main_arg ident =
     (if ident = PNone then Inr (Unpopulated ident, [])
      else case pytrainer_main_arg of
        None \<Rightarrow> Inr (Unpopulated ident, [])
      | Some main \<Rightarrow>
          (let self1 = set_units (blank main ident);
               self2 = self1\<lparr> gpx_file := map_option fst (gpx_lookup main ident) \<rparr>;
               self3 = (if gpx_file self2 \<noteq> None then init_from_gpx_file main self2 else self2)
           in err_bind (init_from_db main self3) (\<lambda>(self4, inserted).
              err_bind (init_graph_data main self4) (\<lambda>self5.
              err_bind (generate_per_lap_graphs self5) (\<lambda>self6.
                Inr (Populated (self6\<lparr> x_axis := ''distance'', show_laps := False \<rparr>), inserted))))))"

section \<open>Field access\<close>

text \<open>\<^verbatim>\<open>get_value\<close> (lines 569-620).\<close>

definition get_value :: "pytrainer_main \<Rightarrow> activity \<Rightarrow> string \<Rightarrow> pyerr + pyval" where
  "get_value main self param =
     (if param = ''distance'' then
        (if us_system self then km2miles (distance self) else Inr (distance self))
      else if param = ''average'' then
        (if us_system self then km2miles (average self) else Inr (average self))
      else if param = ''upositive'' then
        (if us_system self then m2feet (upositive self) else Inr (upositive self))
      else if param = ''unegative'' then
        (if us_system self then m2feet (unegative self) else Inr (unegative self))
      else if param = ''maxspeed'' then
        (if us_system self then km2miles (maxspeed self) else Inr (maxspeed self))
      else if param = ''maxpace'' then
        (if us_system self
         then err_bind (pacekm2miles (maxpace self)) (\<lambda>v. err_bind (pace_from_float v) (\<lambda>s. Inr (PStr s)))
         else err_bind (pace_from_float (maxpace self)) (\<lambda>s. Inr (PStr s)))
      else if param = ''pace'' then
        (if us_system self
         then err_bind (pacekm2miles (pace self)) (\<lambda>v. err_bind (pace_from_float v) (\<lambda>s. Inr (PStr s)))
         else err_bind (pace_from_float (pace self)) (\<lambda>s. Inr (PStr s)))
      else if param = ''calories'' then Inr (PInt (calories self))
      else if param = ''time'' then
        (if time self = 0 then Inr (PStr [])
         else (case second2time main (time self) of
                 (hour, mins, secs) \<Rightarrow>
                   if hour = 0 then Inr (PStr (fmt_02d mins @ '':'' @ fmt_02d secs))
                   else Inr (PStr (int_str hour @ '':'' @ fmt_02d mins @ '':'' @ fmt_02d secs))))
      else Inr PNone)"

text \<open>
  \<^verbatim>\<open>get_value_f\<close> (lines 550-567). The argument \<open>fmt\<close> is Python's formatting of the value:
  \<^verbatim>\<open>format % value\<close>, or \<^verbatim>\<open>str(value)\<close> when no format is given.
\<close>

definition get_value_f ::
  "pytrainer_main \<Rightarrow> activity \<Rightarrow> string \<Rightarrow> (pyval \<Rightarrow> pyerr + string) \<Rightarrow> bool \<Rightarrow> pyerr + string"
where
  "get_value_f main self param fmt with_units =
     err_bind (get_value main self param) (\<lambda>v.
       if \<not> py_truth v then Inr []
       else err_bind (fmt v) (\<lambda>result.
              Inr (if with_units
                   then (case map_of (units self) param of Some u \<Rightarrow> result @ u | None \<Rightarrow> result)
                   else result)))"

section \<open>Example inputs\<close>

text \<open>
  Concrete collaborators, used where a statement is evaluated on an input: a database with
  the given rows and laps, an optional track log, and a date parser that accepts text.
\<close>

definition example_row :: row where
  "example_row =
     \<lparr> col_sports_name = PStr ''Run'', col_id_sports = PInt 1, col_date = PStr ''2010-05-01'',
       col_distance = PFloat 10, col_time = PInt 3600, col_beats = PInt 140,
       col_comments = PNone, col_average = PFloat 10, col_calories = PInt 700,
       col_id_record = PInt 7, col_title = PNone, col_upositive = PFloat 120,
       col_unegative = PFloat 110, col_maxspeed = PFloat 15, col_maxpace = PFloat 4,
       col_pace = PFloat 6, col_maxbeats = PInt 180,
       col_date_time_utc = PStr ''2010-05-01T08:00:00Z'',
       col_date_time_local = PStr ''2010-05-01T10:00:00+02:00'',
       col_sports_max_pace = PInt 5 \<rparr>"

definition example_main :: "pyval \<Rightarrow> gpx option \<Rightarrow> row list \<Rightarrow> lap list option \<Rightarrow> pytrainer_main" where
  "example_main flag g rows ls =
     \<lparr> prf_us_system = flag, getMaxHR = 190,
       getZones = [(PInt 100, PInt 140, PStr ''#ffff99'', PStr ''Moderate'')],
       gpx_lookup = (\<lambda>i. map_option (Pair ''gpx/7.gpx'') g),
       ddbb_select = (\<lambda>i. rows), ddbb_select_dict = (\<lambda>i. ls),
       dateutil_parse = (\<lambda>v. case v of PStr s \<Rightarrow> Inr (Datetime 0) | _ \<Rightarrow> Inl ParserError),
       astimezone_local = (\<lambda>d. d), strftime_X = (\<lambda>d. ''10:00:00''),
       second2time = (\<lambda>s. (s div 3600, s mod 3600 div 60, s mod 60)) \<rparr>"

definition example_lap :: "string \<Rightarrow> real \<Rightarrow> lap" where
  "example_lap elapsed metres =
     \<lparr> l_id_lap = PInt 1, l_record = PInt 7, l_elapsed_time = elapsed, l_distance = metres,
       l_start_lat = PNone, l_start_lon = PNone, l_end_lat = PNone, l_end_lon = PNone,
       l_calories = PInt 0, l_lap_number = PInt 0, l_intensity = PNone, l_avg_hr = PNone,
       l_max_hr = PNone, l_max_speed = PNone, l_laptrigger = PNone, l_comments = PNone \<rparr>"

definition example_point :: "real \<Rightarrow> real \<Rightarrow> real \<Rightarrow> int option \<Rightarrow> trackpoint" where
  "example_point d t v h =
     \<lparr> elapsed_distance = d, time_elapsed = t, ele = 100, correctedElevation = 101,
       hr = h, cadence = None, velocity = v \<rparr>"

definition example_gpx :: "trackpoint list \<Rightarrow> real \<Rightarrow> real \<Rightarrow> gpx" where
  "example_gpx pts by_laps by_points =
     \<lparr> trkpoints = pts, total_dist = 10, total_dist_trkpts = 10, total_time = by_laps,
       total_time_trkpts = by_points, getLaps = [] \<rparr>"

text \<open>
  The claim of the spec about the pace text, in its own words: a text parses as
  \<^verbatim>\<open>mm:ss\<close> or \<^verbatim>\<open>mm.ss\<close> when it is digits, one separator, digits.
\<close>

definition parses_as_mm_ss :: "string \<Rightarrow> bool" where
  "parses_as_mm_ss s =
     (takeWhile is_digit s \<noteq> [] \<and>
      (case dropWhile is_digit s of
         [] \<Rightarrow> False
       | c # t \<Rightarrow> (c = CHR '':'' \<or> c = CHR ''.'') \<and> t \<noteq> [] \<and> list_all is_digit t))"

text \<open>
  An activity as \<^verbatim>\<open>__init__\<close> configures it for a measurement system (lines 108-112): the
  flag, then \<^verbatim>\<open>_set_units\<close>.
\<close>

definition with_system :: "bool \<Rightarrow> activity \<Rightarrow> activity" where
  "with_system imperial self = set_units (self\<lparr> us_system := imperial \<rparr>)"

text \<open>An activity with the given track list and nothing else loaded.\<close>

definition example_activity :: "trackpoint list \<Rightarrow> activity" where
  "example_activity pts =
     (blank (example_main (PStr ''False'') None [example_row] None) (PInt 7))\<lparr> tracklist := Some pts \<rparr>"

text \<open>
  What is observed of a dictionary of series: the sequence of x-values of each series, and
  the number of points of each series.
\<close>

definition series_x :: "series \<Rightarrow> (string \<times> pyval list) list" where
  "series_x d = map (\<lambda>(k, g). (k, x_values g)) d"

definition series_len :: "series \<Rightarrow> (string \<times> nat) list" where
  "series_len d = map (\<lambda>(k, g). (k, len g)) d"

text \<open>
  Two statements correspond when they address the same series of the same dictionary and,
  where both evaluate their arguments, either both add a point or neither does, with the
  same x-value when the dictionary is the one by time.
\<close>

definition stmt_rel :: "stmt \<Rightarrow> stmt \<Rightarrow> bool" where
  "stmt_rel a b =
     (case (a, b) of
        ((tg, n, x, y), (tg', n', x', y')) \<Rightarrow>
          tg = tg' \<and> n = n' \<and>
          (case (x, y, x', y') of
             (Inr xv, Inr yv, Inr xv', Inr yv') \<Rightarrow> (yv = PNone) = (yv' = PNone) \<and> (tg = Dist \<or> xv = xv')
           | _ \<Rightarrow> True))"

text \<open>The test of the removal loop: a key stays unless its series has no point.\<close>

definition keep :: "series \<Rightarrow> string \<Rightarrow> bool" where
  "keep d k = (case map_of d k of Some g \<Rightarrow> len g \<noteq> 0 | None \<Rightarrow> True)"

text \<open>
  The effect of one statement on the series \<open>k\<close> of the dictionary \<open>tg\<close>: the statement adds
  to the series when it addresses it, and leaves every other series as it is.
\<close>

definition stmt_effect ::
  "(graphdata \<Rightarrow> pyval \<Rightarrow> pyval \<Rightarrow> graphdata) \<Rightarrow> target \<Rightarrow> string \<Rightarrow> stmt \<Rightarrow> graphdata \<Rightarrow> graphdata"
where
  "stmt_effect add tg k s g =
     (case s of
        (tg', n, x, y) \<Rightarrow>
          if tg' = tg \<and> n = k
          then (case (x, y) of (Inr xv, Inr yv) \<Rightarrow> add g xv yv | _ \<Rightarrow> g)
          else g)"

text \<open>
  The pace of a trackpoint in the spec's words (section 4.2): 60 over the velocity, 0 for
  a velocity of zero, and 0 when a pace limit is set and exceeded. A limit that is no
  number is never exceeded.
\<close>

definition spec_point_pace :: "pyval \<Rightarrow> real \<Rightarrow> pyval" where
  "spec_point_pace limit v =
     (if v = 0 then PInt 0
      else case num_of limit of
             Some l \<Rightarrow> if 60 / v > l then PInt 0 else PFloat (60 / v)
           | None \<Rightarrow> PFloat (60 / v))"

text \<open>A text that \<^verbatim>\<open>float()\<close> reads as a finite number, and the seconds of a lap.\<close>

definition reads_as_float :: "string \<Rightarrow> bool" where
  "reads_as_float s = (case py_float (PStr s) of Inr (PFloat t) \<Rightarrow> True | _ \<Rightarrow> False)"

definition lap_seconds :: "lap \<Rightarrow> real" where
  "lap_seconds l = (case lap_time_of l of Inr (PFloat t) \<Rightarrow> t | _ \<Rightarrow> 0)"

text \<open>
  The values of a lap in the spec's words (section 4.3): the pace is the seconds over 60
  times the km, the average speed is the km over the hours, each 0.0 on a division by
  zero; a pace above a pace limit that is set becomes 0.
\<close>

definition spec_lap_pace :: "real \<Rightarrow> real \<Rightarrow> real" where
  "spec_lap_pace t km = (if km = 0 then 0 else t / (60 * km))"

definition spec_lap_speed :: "real \<Rightarrow> real \<Rightarrow> real" where
  "spec_lap_speed t km = (if t = 0 then 0 else km / (t / 3600))"

definition spec_clamp :: "pyval \<Rightarrow> real \<Rightarrow> real" where
  "spec_clamp limit p = (case num_of limit of Some l \<Rightarrow> if p > l then 0 else p | None \<Rightarrow> p)"

text \<open>
  The bar of a lap in a series by lap, in the spec's words: its x-value is the seconds of
  the lap, or its km (in miles in the imperial system); its y-value is the pace after the
  limit, or the average speed, converted in the imperial system.
\<close>

definition spec_lap_x :: "activity \<Rightarrow> target \<Rightarrow> lap \<Rightarrow> pyval" where
  "spec_lap_x self tg l =
     (if tg = Time then PFloat (lap_seconds l)
      else PFloat (if us_system self then l_distance l / 1000 * 0.621371 else l_distance l / 1000))"

definition spec_lap_y :: "activity \<Rightarrow> string \<Rightarrow> lap \<Rightarrow> pyval" where
  "spec_lap_y self k l =
     (if k = ''pace_lap''
      then PFloat (if us_system self
                   then spec_clamp (pace_limit self) (spec_lap_pace (lap_seconds l) (l_distance l / 1000)) / 0.621371
                   else spec_clamp (pace_limit self) (spec_lap_pace (lap_seconds l) (l_distance l / 1000)))
      else PFloat (if us_system self
                   then spec_lap_speed (lap_seconds l) (l_distance l / 1000) * 0.621371
                   else spec_lap_speed (lap_seconds l) (l_distance l / 1000)))"

text \<open>A metric activity with a pace limit of 5, the given track list and the given laps.\<close>

definition example_paced :: "trackpoint list \<Rightarrow> lap list \<Rightarrow> activity" where
  "example_paced pts ls =
     (with_system False (example_activity pts))\<lparr> pace_limit := PInt 5, laps := Some ls \<rparr>"


section \<open>Arithmetic on Python values\<close>

lemma py_div_ff: "py_div (PFloat a) (PFloat b) = (if b = 0 then Inl ZeroDivisionError else Inr (PFloat (a / b)))"
  by (simp add: py_div_def)

lemma py_div_if: "py_div (PInt a) (PFloat b) = (if b = 0 then Inl ZeroDivisionError else Inr (PFloat (real_of_int a / b)))"
  by (simp add: py_div_def)

lemma py_div_fi: "py_div (PFloat a) (PInt b) = (if b = 0 then Inl ZeroDivisionError else Inr (PFloat (a / real_of_int b)))"
  by (simp add: py_div_def)

lemma py_div_ii: "py_div (PInt a) (PInt b) = (if b = 0 then Inl ZeroDivisionError else Inr (PInt (a div b)))"
  by (simp add: py_div_def)

lemma py_mul_ff: "py_mul (PFloat a) (PFloat b) = Inr (PFloat (a * b))"
  by (simp add: py_mul_def)

lemma py_mul_if: "py_mul (PInt a) (PFloat b) = Inr (PFloat (real_of_int a * b))"
  by (simp add: py_mul_def)

lemma py_mul_fi: "py_mul (PFloat a) (PInt b) = Inr (PFloat (a * real_of_int b))"
  by (simp add: py_mul_def)

lemma py_mul_ii: "py_mul (PInt a) (PInt b) = Inr (PInt (a * b))"
  by (simp add: py_mul_def)

lemmas py_arith = py_div_ff py_div_if py_div_fi py_div_ii py_mul_ff py_mul_if py_mul_fi py_mul_ii

lemma nat_str_small: "n < 10 \<Longrightarrow> nat_str n = [digit_char n]"
  by (simp add: nat_str.simps)

lemmas float_parse_defs =
  replace_def float_of_string_def strip_def is_space_def split_sign_def lower_char_def
  parse_decimal_def is_digit_def parse_exponent_def scale10_def digits_val_def digit_val_def

lemmas float_format_defs =
  fmt_2f_real_def round_half_even_def nat_str.simps digit_char_def replace_def

lemmas example_defs =
  example_main_def example_row_def example_lap_def example_point_def example_gpx_def

section \<open>The pace of a trackpoint\<close>

lemma point_pace_float:
  "point_pace limit (PFloat v) =
     (if v = 0 then Inr (PInt 0)
      else if limit = PNone then Inr (PFloat (60 / v))
      else (case num_of limit of
              Some l \<Rightarrow> Inr (if 60 / v > l then PInt 0 else PFloat (60 / v))
            | None \<Rightarrow> if is_float_special limit then Inl NonFinite else Inr (PFloat (60 / v))))"
  by (cases limit)
     (auto simp add: point_pace_def try_except_def err_bind_def py_arith limit_pace_def py_gt_def)

lemma point_pace_invalid:
  "point_pace limit (PInt 0) = Inr (PInt 0) \<and> point_pace limit PNone = Inr (PInt 0)
     \<and> point_pace limit (PStr s) = Inr (PInt 0)"
  by (simp add: point_pace_def try_except_def err_bind_def py_arith py_div_def is_number_def)

section \<open>The constructor without an identifier\<close>

text \<open>
  Claim C4 says that constructing an activity without an identifier fails with a fatal
  error. The constructor returns instead: no error is raised, and the instance has its
  identifier attribute only, with no data loaded and nothing queried.
\<close>

theorem init_without_id_returns:
  "init pytrainer_main_arg PNone = Inr (Unpopulated PNone, [])"
  by (simp add: init_def)

section \<open>The values derived from a lap\<close>

lemma lap_pace_ff:
  "lap_pace (PFloat t) (PFloat d) = Inr (PFloat (if d = 0 then 0 else t / (60 * d)))"
  by (simp add: lap_pace_def err_bind_def py_arith)

lemma lap_avg_ff:
  "lap_avg_speed (PFloat t) (PFloat d) = Inr (PFloat (if t = 0 then 0 else d / (t / 3600)))"
  by (simp add: lap_avg_speed_def try_except_def err_bind_def py_arith)

section \<open>Time without activity\<close>

text \<open>
  Claim C5. For an activity with a track log, the time without activity recorded by the
  constructor is the total time by points minus the total time by laps when that
  difference is above four seconds, and 0 otherwise.
\<close>

theorem pause_time:
  "gpx_lookup main ident = Some (path, g) \<Longrightarrow>
   time_pause (init_from_gpx_file main
                 ((set_units (blank main ident))\<lparr> gpx_file := map_option fst (gpx_lookup main ident) \<rparr>))
     = (if total_time_trkpts g - total_time g > 4 then total_time_trkpts g - total_time g else 0)"
  by (simp add: init_from_gpx_file_def Let_def set_units_def blank_def)

theorem pause_time_witness:
  "time_pause (init_from_gpx_file (example_main (PStr ''False'') (Some (example_gpx [] 100 110)) [example_row] None)
     ((set_units (blank (example_main (PStr ''False'') (Some (example_gpx [] 100 110)) [example_row] None) (PInt 7)))
        \<lparr> gpx_file := map_option fst
             (gpx_lookup (example_main (PStr ''False'') (Some (example_gpx [] 100 110)) [example_row] None) (PInt 7)) \<rparr>))
     = 10
   \<and> time_pause (init_from_gpx_file (example_main (PStr ''False'') (Some (example_gpx [] 100 102)) [example_row] None)
     ((set_units (blank (example_main (PStr ''False'') (Some (example_gpx [] 100 102)) [example_row] None) (PInt 7)))
        \<lparr> gpx_file := map_option fst
             (gpx_lookup (example_main (PStr ''False'') (Some (example_gpx [] 100 102)) [example_row] None) (PInt 7)) \<rparr>))
     = 0"
proof -
  have a: "gpx_lookup (example_main (PStr ''False'') (Some (example_gpx [] 100 by_points)) [example_row] None) (PInt 7)
             = Some (''gpx/7.gpx'', example_gpx [] 100 by_points)" for by_points
    by (simp add: example_main_def)
  show ?thesis
    using pause_time [OF a [of 110]] pause_time [OF a [of 102]]
    by (simp add: example_gpx_def)
qed

section \<open>Pace text\<close>

lemma pace_from_float_falsy: "\<not> py_truth v \<Longrightarrow> pace_from_float v = Inr []"
  by (simp add: pace_from_float_def)

lemma pace_from_float_zero: "num_of v = Some 0 \<Longrightarrow> pace_from_float v = Inr []"
  by (cases v) (auto simp: pace_from_float_def)

lemma pacekm2miles_zero: "num_of v = Some 0 \<Longrightarrow> pacekm2miles v = Inr (PFloat 0)"
  by (cases v) (auto simp: pacekm2miles_def py_arith)

lemma km2miles_zero: "num_of v = Some 0 \<Longrightarrow> km2miles v = Inr (PFloat 0)"
  by (cases v) (auto simp: km2miles_def py_arith)

lemma m2feet_zero: "num_of v = Some 0 \<Longrightarrow> m2feet v = Inr (PFloat 0)"
  by (cases v) (auto simp: m2feet_def py_arith)

text \<open>
  Claim C10. For an activity whose stored pace (or maximum pace) is 0, \<^verbatim>\<open>get_value\<close> of
  that field is the empty string, in the metric and in the imperial system alike: the
  formatter \<^verbatim>\<open>pace_from_float\<close> maps every false value to the empty string, and the
  conversion to the mile keeps 0.
\<close>

theorem zero_pace_is_blank:
  "(num_of (pace self) = Some 0 \<longrightarrow> get_value main self ''pace'' = Inr (PStr []))
   \<and> (num_of (maxpace self) = Some 0 \<longrightarrow> get_value main self ''maxpace'' = Inr (PStr []))
   \<and> (\<not> py_truth v \<longrightarrow> pace_from_float v = Inr [])"
  by (auto simp: get_value_def err_bind_def pacekm2miles_zero pace_from_float_zero pace_from_float_falsy)

theorem zero_pace_is_blank_witness:
  "get_value (example_main (PStr ''True'') None [example_row] None)
     ((blank (example_main (PStr ''True'') None [example_row] None) (PInt 7))
        \<lparr> us_system := True, pace := PFloat 0 \<rparr>) ''pace'' = Inr (PStr [])
   \<and> get_value (example_main (PStr ''True'') None [example_row] None)
     ((blank (example_main (PStr ''True'') None [example_row] None) (PInt 7))
        \<lparr> us_system := False, maxpace := PInt 0 \<rparr>) ''maxpace'' = Inr (PStr [])
   \<and> pace_from_float (PFloat 0) = Inr []"
proof -
  let ?m = "example_main (PStr ''True'') None [example_row] None"
  have a: "get_value ?m ((blank ?m (PInt 7))\<lparr> us_system := True, pace := PFloat 0 \<rparr>) ''pace'' = Inr (PStr [])"
    using zero_pace_is_blank [of "(blank ?m (PInt 7))\<lparr> us_system := True, pace := PFloat 0 \<rparr>" ?m "PFloat 0"]
    by simp
  have b: "get_value ?m ((blank ?m (PInt 7))\<lparr> us_system := False, maxpace := PInt 0 \<rparr>) ''maxpace'' = Inr (PStr [])"
    using zero_pace_is_blank [of "(blank ?m (PInt 7))\<lparr> us_system := False, maxpace := PInt 0 \<rparr>" ?m "PFloat 0"]
    by simp
  have c: "pace_from_float (PFloat 0) = Inr []"
    using zero_pace_is_blank [of "blank ?m (PInt 7)" ?m "PFloat 0"] by simp
  from a b c show ?thesis by simp
qed

text \<open>The float parser accepts at most one point.\<close>

lemma dots_digits: "list_all is_digit ds \<Longrightarrow> filter (\<lambda>c. c = CHR ''.'') ds = []"
  by (induction ds) (auto simp: is_digit_def)

lemma dots_takeWhile_digit: "filter (\<lambda>c. c = CHR ''.'') (takeWhile is_digit s) = []"
  by (induction s) (auto simp: is_digit_def)

lemma split_sign_dots:
  "split_sign t = (neg, ds) \<Longrightarrow> filter (\<lambda>c. c = CHR ''.'') t = filter (\<lambda>c. c = CHR ''.'') ds"
  by (auto simp: split_sign_def split: list.splits if_splits)

lemma parse_exponent_dots: "parse_exponent r = Some e \<Longrightarrow> filter (\<lambda>c. c = CHR ''.'') r = []"
  by (auto simp: parse_exponent_def dots_digits split: list.splits if_splits prod.splits
      dest!: split_sign_dots)

lemma dots_split:
  "filter (\<lambda>c. c = CHR ''.'') s
     = filter (\<lambda>c. c = CHR ''.'') (takeWhile P s) @ filter (\<lambda>c. c = CHR ''.'') (dropWhile P s)"
  by (metis filter_append takeWhile_dropWhile_id)

lemma parse_decimal_dots:
  assumes a: "parse_decimal b = Some r"
  shows "length (filter (\<lambda>c. c = CHR ''.'') b) \<le> 1"
proof -
  let ?r1 = "dropWhile is_digit b"
  have b: "filter (\<lambda>c. c = CHR ''.'') b = filter (\<lambda>c. c = CHR ''.'') ?r1"
    using dots_split [of b is_digit] by (simp add: dots_takeWhile_digit)
  show ?thesis
  proof (cases ?r1)
    case Nil
    with b show ?thesis by simp
  next
    case (Cons c t)
    show ?thesis
    proof (cases "c = CHR ''.''")
      case True
      from a Cons True obtain e where "parse_exponent (dropWhile is_digit t) = Some e"
        by (auto simp: parse_decimal_def Let_def split: if_splits option.splits)
      then have "filter (\<lambda>c. c = CHR ''.'') (dropWhile is_digit t) = []"
        by (rule parse_exponent_dots)
      then have "filter (\<lambda>c. c = CHR ''.'') t = []"
        using dots_split [of t is_digit] by (simp add: dots_takeWhile_digit)
      with b Cons True show ?thesis by simp
    next
      case False
      from a Cons False obtain e where "parse_exponent ?r1 = Some e"
        by (auto simp: parse_decimal_def Let_def split: if_splits option.splits)
      then have "filter (\<lambda>c. c = CHR ''.'') ?r1 = []" by (rule parse_exponent_dots)
      with b show ?thesis by simp
    qed
  qed
qed

lemma dots_dropWhile_space:
  "filter (\<lambda>c. c = CHR ''.'') (dropWhile is_space s) = filter (\<lambda>c. c = CHR ''.'') s"
  by (induction s) (auto simp: is_space_def)

lemma dots_strip: "length (filter (\<lambda>c. c = CHR ''.'') (strip s)) = length (filter (\<lambda>c. c = CHR ''.'') s)"
proof -
  have "length (filter (\<lambda>c. c = CHR ''.'') (strip s))
          = length (filter (\<lambda>c. c = CHR ''.'') (dropWhile is_space (rev (dropWhile is_space s))))"
    by (simp add: strip_def rev_filter [symmetric])
  also have "\<dots> = length (filter (\<lambda>c. c = CHR ''.'') (rev (dropWhile is_space s)))"
    by (simp only: dots_dropWhile_space)
  also have "\<dots> = length (filter (\<lambda>c. c = CHR ''.'') (dropWhile is_space s))"
    by (simp add: rev_filter [symmetric])
  finally show ?thesis by (simp only: dots_dropWhile_space)
qed

lemma of_char_lower:
  "(of_char (lower_char c) :: nat)
     = (if 65 \<le> (of_char c :: nat) \<and> (of_char c :: nat) \<le> 90 then of_char c + 32 else of_char c)"
  by (simp add: lower_char_def)

lemma lower_dot: "lower_char c = CHR ''.'' \<longleftrightarrow> c = CHR ''.''"
proof
  assume "lower_char c = CHR ''.''"
  then have "(of_char (lower_char c) :: nat) = 46" by simp
  then have "(of_char c :: nat) = 46" by (simp add: of_char_lower split: if_splits)
  then have "(of_char c :: nat) = of_char (CHR ''.'')" by simp
  then show "c = CHR ''.''" by (simp only: of_char_eq_iff)
next
  assume "c = CHR ''.''"
  then show "lower_char c = CHR ''.''" by (simp add: lower_char_def)
qed

lemma dots_lower:
  "length (filter (\<lambda>c. c = CHR ''.'') (map lower_char b)) = length (filter (\<lambda>c. c = CHR ''.'') b)"
  by (induction b) (auto simp: lower_dot)

lemma float_of_string_dots:
  assumes a: "float_of_string s = Some v"
  shows "length (filter (\<lambda>c. c = CHR ''.'') s) \<le> 1"
proof -
  obtain neg b where sb: "split_sign (strip s) = (neg, b)" by (cases "split_sign (strip s)")
  then have d: "length (filter (\<lambda>c. c = CHR ''.'') s) = length (filter (\<lambda>c. c = CHR ''.'') b)"
    using split_sign_dots [OF sb] dots_strip [of s] by simp
  have "length (filter (\<lambda>c. c = CHR ''.'') (map lower_char b)) = 0 \<or> (\<exists>r. parse_decimal b = Some r)"
    using a sb by (auto simp: float_of_string_def split: if_splits)
  then show ?thesis
  proof
    assume "length (filter (\<lambda>c. c = CHR ''.'') (map lower_char b)) = 0"
    then have "length (filter (\<lambda>c. c = CHR ''.'') b) = 0" by (simp only: dots_lower)
    with d show ?thesis by simp
  next
    assume "\<exists>r. parse_decimal b = Some r"
    then obtain r where "parse_decimal b = Some r" ..
    from parse_decimal_dots [OF this] d show ?thesis by simp
  qed
qed

lemma dots_replace:
  "length (filter (\<lambda>c. c = CHR ''.'') (replace CHR '':'' CHR ''.'' s))
     = length (filter (\<lambda>c. c = CHR '':'' \<or> c = CHR ''.'') s)"
  by (induction s) (auto simp: replace_def)

lemma two_separators_null:
  assumes a: "2 \<le> length (filter (\<lambda>c. c = CHR '':'' \<or> c = CHR ''.'') s)"
  shows "pace_to_float (PStr s) = Inr PNone"
proof -
  have "float_of_string (replace CHR '':'' CHR ''.'' s) = None"
  proof (cases "float_of_string (replace CHR '':'' CHR ''.'' s)")
    case None
    then show ?thesis .
  next
    case (Some v)
    from float_of_string_dots [OF Some] a show ?thesis by (simp add: dots_replace)
  qed
  then show ?thesis by (simp add: pace_to_float_def)
qed

text \<open>Every text of digits, a point and digits is a float literal.\<close>

lemma float_of_string_not_None: "float_of_string s \<noteq> Some PNone"
  by (auto simp: float_of_string_def split: prod.splits if_splits)

lemma takeWhile_all: "list_all P t \<Longrightarrow> takeWhile P t = t \<and> dropWhile P t = []"
  by (induction t) auto

lemma digit_facts:
  "is_digit c \<Longrightarrow> \<not> is_space c \<and> c \<noteq> CHR ''-'' \<and> c \<noteq> CHR ''+'' \<and> c \<noteq> CHR ''.'' \<and> c \<noteq> CHR '':''
     \<and> lower_char c = c \<and> c \<noteq> CHR ''i'' \<and> c \<noteq> CHR ''n''"
  by (auto simp: is_digit_def is_space_def lower_char_def)

lemma takeWhile_digits_dot:
  "list_all is_digit m \<Longrightarrow>
   takeWhile is_digit (m @ CHR ''.'' # t) = m \<and> dropWhile is_digit (m @ CHR ''.'' # t) = CHR ''.'' # t"
  by (induction m) (auto simp: is_digit_def)

lemma strip_digits:
  assumes "is_digit a" "is_digit z"
  shows "strip (a # u @ [z]) = a # u @ [z]"
  using assms by (simp add: strip_def digit_facts)

lemma float_of_mm_ss:
  assumes m: "m \<noteq> []" "list_all is_digit m" and t: "t \<noteq> []" "list_all is_digit t"
  shows "float_of_string (m @ CHR ''.'' # t)
           = Some (PFloat (scale10 (real (digits_val (m @ t))) (- int (length t))))"
proof -
  from m obtain a m' where ma: "m = a # m'" and a: "is_digit a" by (cases m) auto
  from t obtain z t' where tz: "t = t' @ [z]" and z: "is_digit z"
    by (cases t rule: rev_cases) auto
  have st: "strip (m @ CHR ''.'' # t) = m @ CHR ''.'' # t"
    using strip_digits [OF a z, of "m' @ CHR ''.'' # t'"] by (simp add: ma tz)
  have sg: "split_sign (m @ CHR ''.'' # t) = (False, m @ CHR ''.'' # t)"
    using a by (simp add: split_sign_def ma digit_facts)
  have lw: "map lower_char (m @ CHR ''.'' # t) \<noteq> ''inf''
              \<and> map lower_char (m @ CHR ''.'' # t) \<noteq> ''infinity''
              \<and> map lower_char (m @ CHR ''.'' # t) \<noteq> ''nan''"
    using a by (auto simp: ma digit_facts)
  have pd: "parse_decimal (m @ CHR ''.'' # t)
              = Some (scale10 (real (digits_val (m @ t))) (- int (length t)))"
    using m t by (simp add: parse_decimal_def takeWhile_digits_dot takeWhile_all parse_exponent_def)
  show ?thesis
    using lw by (simp add: float_of_string_def st sg pd)
qed

lemma mm_ss_number:
  assumes a: "parses_as_mm_ss s"
  shows "pace_to_float (PStr s)
           = Inr (PFloat (scale10 (real (digits_val (takeWhile is_digit s @ tl (dropWhile is_digit s))))
                            (- int (length (tl (dropWhile is_digit s))))))"
proof -
  let ?m = "takeWhile is_digit s"
  from a obtain c t where r1: "dropWhile is_digit s = c # t" and c: "c = CHR '':'' \<or> c = CHR ''.''"
    and t: "t \<noteq> []" "list_all is_digit t" and m: "?m \<noteq> []"
    by (auto simp: parses_as_mm_ss_def split: list.splits)
  have s: "s = ?m @ c # t" using r1 by (metis takeWhile_dropWhile_id)
  have md: "list_all is_digit ?m" by (simp add: list_all_iff) (meson set_takeWhileD)
  have dig: "\<And>ds. list_all is_digit ds \<Longrightarrow> replace CHR '':'' CHR ''.'' ds = ds"
    subgoal for ds by (induction ds) (auto simp: replace_def is_digit_def) done
  have "replace CHR '':'' CHR ''.'' s
          = replace CHR '':'' CHR ''.'' ?m @ replace CHR '':'' CHR ''.'' (c # t)"
    by (subst s) (simp add: replace_def)
  also have "\<dots> = ?m @ CHR ''.'' # t"
    using c dig [OF md] dig [OF t(2)] by (auto simp: replace_def)
  finally have rep: "replace CHR '':'' CHR ''.'' s = ?m @ CHR ''.'' # t" .
  show ?thesis
    by (simp add: pace_to_float_def rep float_of_mm_ss [OF m md t] r1)
qed

text \<open>
  Claim C7, as the spec states it, has \<^verbatim>\<open>pace_to_float\<close> return null on every text that
  does not parse as \<^verbatim>\<open>mm:ss\<close> or \<^verbatim>\<open>mm.ss\<close>. The function hands the text to \<^verbatim>\<open>float()\<close>, which
  accepts more than that: \<^verbatim>\<open>1e3\<close> and \<^verbatim>\<open>5\<close> are no such texts and give a number.
\<close>

theorem pace_to_float_accepts_other_text:
  "\<not> parses_as_mm_ss ''1e3'' \<and> pace_to_float (PStr ''1e3'') = Inr (PFloat 1000)
   \<and> \<not> parses_as_mm_ss ''5'' \<and> pace_to_float (PStr ''5'') = Inr (PFloat 5)"
  by (simp add: parses_as_mm_ss_def pace_to_float_def float_parse_defs)

text \<open>
  Claim C7, amended. The text \<^verbatim>\<open>5:30\<close> goes to the float 5.30 and back to \<^verbatim>\<open>5:30\<close>, and
  \<^verbatim>\<open>5.30\<close> goes to 5.30. \<^verbatim>\<open>pace_to_float\<close> returns null exactly when \<^verbatim>\<open>float()\<close> rejects the
  text with its colons replaced by points: every text of digits, one separator and digits
  gives the number it writes, and every text with two or more separators gives null.
\<close>

theorem pace_text_round_trip:
  "err_bind (pace_to_float (PStr ''5:30'')) pace_from_float = Inr ''5:30''
   \<and> pace_to_float (PStr ''5.30'') = Inr (PFloat 5.30)
   \<and> (pace_to_float (PStr s) = Inr PNone
        \<longleftrightarrow> float_of_string (replace CHR '':'' CHR ''.'' s) = None)
   \<and> (parses_as_mm_ss s \<longrightarrow>
        pace_to_float (PStr s)
          = Inr (PFloat (scale10 (real (digits_val (takeWhile is_digit s @ tl (dropWhile is_digit s))))
                           (- int (length (tl (dropWhile is_digit s)))))))
   \<and> (2 \<le> length (filter (\<lambda>c. c = CHR '':'' \<or> c = CHR ''.'') s) \<longrightarrow>
        pace_to_float (PStr s) = Inr PNone)"
proof -
  have a: "err_bind (pace_to_float (PStr ''5:30'')) pace_from_float = Inr ''5:30''"
    by (simp add: err_bind_def pace_to_float_def float_parse_defs pace_from_float_def
        fmt_2f_real_def round_half_even_def nat_str.simps digit_char_def)
  have b: "pace_to_float (PStr ''5.30'') = Inr (PFloat 5.30)"
    by (simp add: pace_to_float_def float_parse_defs)
  have c: "pace_to_float (PStr s) = Inr PNone
             \<longleftrightarrow> float_of_string (replace CHR '':'' CHR ''.'' s) = None"
    using float_of_string_not_None [of "replace CHR '':'' CHR ''.'' s"]
    by (auto simp: pace_to_float_def split: option.splits)
  from a b c mm_ss_number [of s] two_separators_null [of s] show ?thesis
    by blast
qed

theorem pace_text_round_trip_witness:
  "parses_as_mm_ss ''4:05'' \<and> pace_to_float (PStr ''4:05'') = Inr (PFloat 4.05)
   \<and> pace_to_float (PStr ''1:2:3'') = Inr PNone"
proof -
  have a: "parses_as_mm_ss ''4:05''"
    by (simp add: parses_as_mm_ss_def is_digit_def)
  have b: "pace_to_float (PStr ''4:05'') = Inr (PFloat 4.05)"
    using a pace_text_round_trip [of "''4:05''"]
    by (simp add: is_digit_def scale10_def digits_val_def digit_val_def)
  have c: "pace_to_float (PStr ''1:2:3'') = Inr PNone"
    using pace_text_round_trip [of "''1:2:3''"] by simp
  from a b c show ?thesis by simp
qed

section \<open>Formatted values\<close>

lemma units_of_set_units:
  "map_of (units (set_units s)) ''distance'' = Some (if us_system s then ''miles'' else ''km'')"
  by (simp add: set_units_def Let_def)

lemma distance_formatted:
  "distance s = PFloat d \<Longrightarrow> d \<noteq> 0 \<Longrightarrow>
   get_value_f main (set_units s) ''distance'' fmt w =
     (if us_system s
      then err_bind (fmt (PFloat (d * 0.621371))) (\<lambda>r. Inr (if w then r @ ''miles'' else r))
      else err_bind (fmt (PFloat d)) (\<lambda>r. Inr (if w then r @ ''km'' else r)))"
  by (simp add: get_value_f_def get_value_def err_bind_def set_units_def Let_def km2miles_def
      py_arith split: sum.splits)

lemma zero_fields:
  "(num_of (distance self) = Some 0 \<longrightarrow> get_value_f main self ''distance'' fmt w = Inr [])
   \<and> (num_of (average self) = Some 0 \<longrightarrow> get_value_f main self ''average'' fmt w = Inr [])
   \<and> (num_of (upositive self) = Some 0 \<longrightarrow> get_value_f main self ''upositive'' fmt w = Inr [])
   \<and> (num_of (unegative self) = Some 0 \<longrightarrow> get_value_f main self ''unegative'' fmt w = Inr [])
   \<and> (num_of (maxspeed self) = Some 0 \<longrightarrow> get_value_f main self ''maxspeed'' fmt w = Inr [])
   \<and> (num_of (maxpace self) = Some 0 \<longrightarrow> get_value_f main self ''maxpace'' fmt w = Inr [])
   \<and> (num_of (pace self) = Some 0 \<longrightarrow> get_value_f main self ''pace'' fmt w = Inr [])
   \<and> (calories self = 0 \<longrightarrow> get_value_f main self ''calories'' fmt w = Inr [])
   \<and> (time self = 0 \<longrightarrow> get_value_f main self ''time'' fmt w = Inr [])"
proof -
  have z: "\<And>v. num_of v = Some 0 \<Longrightarrow> \<not> py_truth v"
    subgoal for v by (cases v) auto done
  show ?thesis
    by (auto simp: get_value_f_def get_value_def err_bind_def km2miles_zero m2feet_zero
        pacekm2miles_zero pace_from_float_zero z)
qed

text \<open>
  \<^verbatim>\<open>get_value_f\<close> returns the empty string whenever the value that \<^verbatim>\<open>get_value\<close> returns is
  false: a stored zero in either system, an absent distance in the metric system, an
  unknown field. For a distance other than zero it returns the formatted value, converted
  to miles in the imperial system, followed by the unit (\<^verbatim>\<open>km\<close> or \<^verbatim>\<open>miles\<close>) when units are
  asked for.
\<close>

theorem formatted_value:
  "(\<forall>v. get_value main self param = Inr v \<and> \<not> py_truth v \<longrightarrow>
        get_value_f main self param fmt w = Inr [])
   \<and> (num_of (distance self) = Some 0 \<longrightarrow> get_value_f main self ''distance'' fmt w = Inr [])
   \<and> (distance self = PNone \<and> \<not> us_system self \<longrightarrow> get_value_f main self ''distance'' fmt w = Inr [])
   \<and> (num_of (average self) = Some 0 \<longrightarrow> get_value_f main self ''average'' fmt w = Inr [])
   \<and> (num_of (upositive self) = Some 0 \<longrightarrow> get_value_f main self ''upositive'' fmt w = Inr [])
   \<and> (num_of (unegative self) = Some 0 \<longrightarrow> get_value_f main self ''unegative'' fmt w = Inr [])
   \<and> (num_of (maxspeed self) = Some 0 \<longrightarrow> get_value_f main self ''maxspeed'' fmt w = Inr [])
   \<and> (num_of (maxpace self) = Some 0 \<longrightarrow> get_value_f main self ''maxpace'' fmt w = Inr [])
   \<and> (num_of (pace self) = Some 0 \<longrightarrow> get_value_f main self ''pace'' fmt w = Inr [])
   \<and> (calories self = 0 \<longrightarrow> get_value_f main self ''calories'' fmt w = Inr [])
   \<and> (time self = 0 \<longrightarrow> get_value_f main self ''time'' fmt w = Inr [])
   \<and> (param \<notin> set [''distance'', ''average'', ''upositive'', ''unegative'', ''maxspeed'',
                      ''maxpace'', ''pace'', ''calories'', ''time''] \<longrightarrow>
        get_value_f main self param fmt w = Inr [])
   \<and> (distance self = PFloat d \<and> d \<noteq> 0 \<longrightarrow>
        get_value_f main (set_units self) ''distance'' fmt w =
          (if us_system self
           then err_bind (fmt (PFloat (d * 0.621371))) (\<lambda>r. Inr (if w then r @ ''miles'' else r))
           else err_bind (fmt (PFloat d)) (\<lambda>r. Inr (if w then r @ ''km'' else r))))"
proof -
  have a: "\<forall>v. get_value main self param = Inr v \<and> \<not> py_truth v \<longrightarrow>
        get_value_f main self param fmt w = Inr []"
    by (simp add: get_value_f_def err_bind_def)
  have b: "distance self = PNone \<and> \<not> us_system self \<longrightarrow> get_value_f main self ''distance'' fmt w = Inr []"
    by (simp add: get_value_f_def get_value_def err_bind_def)
  have c: "param \<notin> set [''distance'', ''average'', ''upositive'', ''unegative'', ''maxspeed'',
                      ''maxpace'', ''pace'', ''calories'', ''time''] \<longrightarrow>
        get_value_f main self param fmt w = Inr []"
    by (simp add: get_value_f_def get_value_def err_bind_def)
  from a b c zero_fields [of self main fmt w] distance_formatted [of self d main fmt w]
  show ?thesis by blast
qed

theorem formatted_value_witness:
  "get_value_f (example_main (PStr ''True'') None [example_row] None)
     (set_units ((blank (example_main (PStr ''True'') None [example_row] None) (PInt 7))
        \<lparr> distance := PFloat 10 \<rparr>))
     ''distance'' (\<lambda>v. Inr (fmt_2f v)) True = Inr ''6.21miles''
   \<and> get_value_f (example_main (PStr ''True'') None [example_row] None)
     (set_units ((blank (example_main (PStr ''True'') None [example_row] None) (PInt 7))
        \<lparr> us_system := False, distance := PFloat 10 \<rparr>))
     ''distance'' (\<lambda>v. Inr (fmt_2f v)) True = Inr ''10.00km''
   \<and> get_value_f (example_main (PStr ''True'') None [example_row] None)
     ((blank (example_main (PStr ''True'') None [example_row] None) (PInt 7))
        \<lparr> distance := PFloat 0 \<rparr>)
     ''distance'' (\<lambda>v. Inr (fmt_2f v)) True = Inr []"
proof -
  let ?m = "example_main (PStr ''True'') None [example_row] None"
  have us: "us_system (blank ?m (PInt 7))"
    by (simp add: blank_def example_main_def py_eq_def)
  have a: "get_value_f ?m (set_units ((blank ?m (PInt 7))\<lparr> distance := PFloat 10 \<rparr>))
             ''distance'' (\<lambda>v. Inr (fmt_2f v)) True = Inr ''6.21miles''"
    using us formatted_value [of ?m "(blank ?m (PInt 7))\<lparr> distance := PFloat 10 \<rparr>" "''distance''"
        "\<lambda>v. Inr (fmt_2f v)" True 10]
    by (simp add: err_bind_def fmt_2f_real_def round_half_even_def nat_str.simps digit_char_def)
  have b: "get_value_f ?m (set_units ((blank ?m (PInt 7))\<lparr> us_system := False, distance := PFloat 10 \<rparr>))
             ''distance'' (\<lambda>v. Inr (fmt_2f v)) True = Inr ''10.00km''"
    using formatted_value [of ?m "(blank ?m (PInt 7))\<lparr> us_system := False, distance := PFloat 10 \<rparr>"
        "''distance''" "\<lambda>v. Inr (fmt_2f v)" True 10]
    by (simp add: err_bind_def fmt_2f_real_def round_half_even_def nat_str.simps digit_char_def)
  have c: "get_value_f ?m ((blank ?m (PInt 7))\<lparr> distance := PFloat 0 \<rparr>)
             ''distance'' (\<lambda>v. Inr (fmt_2f v)) True = Inr []"
    using formatted_value [of ?m "(blank ?m (PInt 7))\<lparr> distance := PFloat 0 \<rparr>" "''distance''"
        "\<lambda>v. Inr (fmt_2f v)" True 10]
    by simp
  from a b c show ?thesis by simp
qed

section \<open>Dictionaries of series\<close>

lemma err_bind_Inr [simp]: "err_bind (Inr v) f = f v"
  by (simp add: err_bind_def)
lemma err_bind_Inl [simp]: "err_bind (Inl e) f = Inl e"
  by (simp add: err_bind_def)


lemma proj_update:
  "map (\<lambda>(k, g). (k, h g)) (AList.update k v d) = AList.update k (h v) (map (\<lambda>(k, g). (k, h g)) d)"
  by (induction d) auto

lemma proj_delete:
  "map (\<lambda>(k, g). (k, h g)) (AList.delete k d) = AList.delete k (map (\<lambda>(k, g). (k, h g)) d)"
  by (induction d) auto

lemma proj_map_of:
  "map_of (map (\<lambda>(k, g). (k, h g)) d) k = map_option h (map_of d k)"
  by (induction d) auto

lemma proj_keys: "map fst (map (\<lambda>(k, g). (k, h g)) d) = map fst d"
  by (induction d) auto

lemma run_adds_Cons_Inr:
  assumes "run_adds add ((tg, n, x, y) # rest) (dd, td) = Inr r"
  shows "\<exists>g xv yv. map_of (if tg = Dist then dd else td) n = Some g \<and> x = Inr xv \<and> y = Inr yv
           \<and> run_adds add rest (if tg = Dist then (AList.update n (add g xv yv) dd, td)
                                 else (dd, AList.update n (add g xv yv) td)) = Inr r"
proof (cases "map_of (if tg = Dist then dd else td) n")
  case None
  with assms show ?thesis by simp
next
  case (Some g)
  show ?thesis
  proof (cases x)
    case (Inl e)
    with assms Some show ?thesis by simp
  next
    case xr: (Inr xv)
    show ?thesis
    proof (cases y)
      case (Inl e)
      with assms Some xr show ?thesis by simp
    next
      case (Inr yv)
      with assms Some xr show ?thesis by simp
    qed
  qed
qed

lemma series_x_lookup:
  assumes a: "series_x d1 = series_x d2" and b: "map_of d1 n = Some g" and c: "map_of d2 n = Some g'"
  shows "x_values g = x_values g'"
proof -
  have "map_of (series_x d1) n = Some (x_values g)"
    unfolding series_x_def by (simp add: proj_map_of b)
  moreover have "map_of (series_x d2) n = Some (x_values g')"
    unfolding series_x_def by (simp add: proj_map_of c)
  ultimately have "Some (x_values g) = Some (x_values g')" by (simp only: a)
  then show ?thesis by simp
qed

lemma series_len_lookup:
  assumes a: "series_len d1 = series_len d2" and b: "map_of d1 n = Some g" and c: "map_of d2 n = Some g'"
  shows "len g = len g'"
proof -
  have "map_of (series_len d1) n = Some (len g)"
    unfolding series_len_def by (simp add: proj_map_of b)
  moreover have "map_of (series_len d2) n = Some (len g')"
    unfolding series_len_def by (simp add: proj_map_of c)
  ultimately have "Some (len g) = Some (len g')" by (simp only: a)
  then show ?thesis by simp
qed

lemma series_x_update: "series_x d1 = series_x d2 \<Longrightarrow> x_values v = x_values v' \<Longrightarrow> series_x (AList.update n v d1) = series_x (AList.update n v' d2)"
  by (simp add: series_x_def proj_update)

lemma series_len_update: "series_len d1 = series_len d2 \<Longrightarrow> len v = len v' \<Longrightarrow> series_len (AList.update n v d1) = series_len (AList.update n v' d2)"
  by (simp add: series_len_def proj_update)

lemma run_adds_proj:
  assumes ok: "\<And>g g' x y y'. x_values g = x_values g' \<Longrightarrow> (y = PNone) = (y' = PNone) \<Longrightarrow> x_values (add g x y) = x_values (add' g' x y')"
    and okl: "\<And>g g' x x' y y'. len g = len g' \<Longrightarrow> (y = PNone) = (y' = PNone) \<Longrightarrow> len (add g x y) = len (add' g' x' y')"
  shows "list_all2 stmt_rel s1 s2 \<Longrightarrow> series_x td1 = series_x td2 \<Longrightarrow> series_len dd1 = series_len dd2 \<Longrightarrow>
     run_adds add s1 (dd1, td1) = Inr (dd1', td1') \<Longrightarrow> run_adds add' s2 (dd2, td2) = Inr (dd2', td2') \<Longrightarrow>
     series_x td1' = series_x td2' \<and> series_len dd1' = series_len dd2'"
proof (induction s1 s2 arbitrary: dd1 td1 dd2 td2 rule: list_all2_induct)
  case Nil
  then show ?case by simp
next
  case (Cons a s1 b s2)
  obtain tg n x y where a: "a = (tg, n, x, y)" by (cases a)
  obtain tg' n' x' y' where b: "b = (tg', n', x', y')" by (cases b)
  from Cons.hyps(1) have tn: "tg' = tg" "n' = n" unfolding a b stmt_rel_def by simp_all
  from Cons.prems(3) [unfolded a] obtain g xv yv where
    g: "map_of (if tg = Dist then dd1 else td1) n = Some g" and x: "x = Inr xv" and y: "y = Inr yv"
    and r1: "run_adds add s1 (if tg = Dist then (AList.update n (add g xv yv) dd1, td1)
                                 else (dd1, AList.update n (add g xv yv) td1)) = Inr (dd1', td1')"
    using run_adds_Cons_Inr by blast
  from Cons.prems(4) [unfolded b tn] obtain g' xv' yv' where
    g': "map_of (if tg = Dist then dd2 else td2) n = Some g'" and x': "x' = Inr xv'" and y': "y' = Inr yv'"
    and r2: "run_adds add' s2 (if tg = Dist then (AList.update n (add' g' xv' yv') dd2, td2)
                                 else (dd2, AList.update n (add' g' xv' yv') td2)) = Inr (dd2', td2')"
    using run_adds_Cons_Inr by blast
  from Cons.hyps(1) have rel: "(yv = PNone) = (yv' = PNone) \<and> (tg = Dist \<or> xv = xv')"
    unfolding a b x y x' y' stmt_rel_def by auto
  show ?case
  proof (cases tg)
    case Dist
    from g g' Dist have "len g = len g'" using series_len_lookup [OF Cons.prems(2)] by simp
    with rel have "len (add g xv yv) = len (add' g' xv' yv')" using okl by blast
    then have l: "series_len (AList.update n (add g xv yv) dd1) = series_len (AList.update n (add' g' xv' yv') dd2)"
      using Cons.prems(2) by (rule series_len_update [rotated])
    from r1 r2 Dist Cons.IH [OF Cons.prems(1) l] show ?thesis by simp
  next
    case Time
    from g g' Time have "x_values g = x_values g'" using series_x_lookup [OF Cons.prems(1)] by simp
    moreover from rel Time have "xv' = xv" by simp
    ultimately have "x_values (add g xv yv) = x_values (add' g' xv' yv')" using rel ok by blast
    then have l: "series_x (AList.update n (add g xv yv) td1) = series_x (AList.update n (add' g' xv' yv') td2)"
      using Cons.prems(1) by (rule series_x_update [rotated])
    from r1 r2 Time Cons.IH [OF l Cons.prems(2)] show ?thesis by simp
  qed
qed

section \<open>Removal of the series without values\<close>

lemma delete_filter: "AList.delete k al = filter (\<lambda>p. fst p \<noteq> k) al"
  by (induction al) auto

lemma filter_absent: "map_of al k = None \<Longrightarrow> filter (\<lambda>p. \<not> (fst p = k \<and> Q)) al = al"
  by (induction al) (auto split: if_splits)

lemma map_of_filter_fst:
  "map_of (filter (\<lambda>p. P (fst p)) al) k = (if P k then map_of al k else None)"
  by (induction al) auto

lemma prune_fold:
  "(\<And>k. map_of acc k = None \<or> map_of acc k = map_of d k) \<Longrightarrow>
   fold (\<lambda>item acc. case map_of acc item of
                          None \<Rightarrow> acc
                        | Some g \<Rightarrow> if len g = 0 then AList.delete item acc else acc) ks acc
     = filter (\<lambda>p. \<not> (fst p \<in> set ks \<and> \<not> keep d (fst p))) acc"
proof (induction ks arbitrary: acc)
  case Nil
  then show ?case by simp
next
  case (Cons item ks)
  let ?f = "\<lambda>item acc. case map_of acc item of
                          None \<Rightarrow> acc
                        | Some g \<Rightarrow> if len g = 0 then AList.delete item acc else acc"
  have step: "?f item acc = filter (\<lambda>p. \<not> (fst p = item \<and> \<not> keep d item)) acc"
  proof (cases "map_of acc item")
    case None
    then show ?thesis using filter_absent [of acc item "\<not> keep d item"] by simp
  next
    case (Some g)
    with Cons.prems [of item] have "map_of d item = Some g" by simp
    then have k: "keep d item = (len g \<noteq> 0)" by (simp add: keep_def)
    show ?thesis
    proof (cases "len g = 0")
      case True
      with Some k show ?thesis by (simp add: delete_filter)
    next
      case False
      with Some k show ?thesis by simp
    qed
  qed
  have inv: "map_of (?f item acc) k = None \<or> map_of (?f item acc) k = map_of d k" for k
    unfolding step using Cons.prems [of k] map_of_filter_fst [of "\<lambda>x. \<not> (x = item \<and> \<not> keep d item)" acc k]
    by (auto split: if_splits)
  have "fold ?f (item # ks) acc = fold ?f ks (?f item acc)" by simp
  also have "\<dots> = filter (\<lambda>p. \<not> (fst p \<in> set ks \<and> \<not> keep d (fst p))) (?f item acc)"
    using inv by (rule Cons.IH)
  also have "\<dots> = filter (\<lambda>p. \<not> (fst p \<in> set (item # ks) \<and> \<not> keep d (fst p))) acc"
    unfolding step by (auto intro: filter_cong)
  finally show ?case .
qed

lemma prune_filter: "prune d = filter (\<lambda>p. keep d (fst p)) d"
proof -
  have "prune d = filter (\<lambda>p. \<not> (fst p \<in> set (map fst d) \<and> \<not> keep d (fst p))) d"
    unfolding prune_def by (rule prune_fold) simp
  also have "\<dots> = filter (\<lambda>p. keep d (fst p)) d"
    by (rule filter_cong) auto
  finally show ?thesis .
qed

lemma map_of_prune:
  "map_of (prune d) k = (if keep d k then map_of d k else None)"
  unfolding prune_filter by (rule map_of_filter_fst)

lemma prune_nonempty: "map_of (prune d) k = Some g \<Longrightarrow> 0 < len g"
  by (auto simp: map_of_prune keep_def split: if_splits)

lemma keep_series_len: "series_len d1 = series_len d2 \<Longrightarrow> keep d1 k = keep d2 k"
proof -
  assume a: "series_len d1 = series_len d2"
  have "map_option len (map_of d1 k) = map_of (series_len d1) k"
    unfolding series_len_def by (simp add: proj_map_of)
  also have "\<dots> = map_of (series_len d2) k" by (simp only: a)
  also have "\<dots> = map_option len (map_of d2 k)"
    unfolding series_len_def by (simp add: proj_map_of)
  finally show ?thesis
    by (cases "map_of d1 k"; cases "map_of d2 k") (simp_all add: keep_def)
qed

lemma proj_filter:
  "map (\<lambda>(k, g). (k, h g)) (filter (\<lambda>p. P (fst p)) d)
     = filter (\<lambda>p. P (fst p)) (map (\<lambda>(k, g). (k, h g)) d)"
  by (induction d) auto

lemma series_len_prune: "series_len d1 = series_len d2 \<Longrightarrow> series_len (prune d1) = series_len (prune d2)"
proof -
  assume a: "series_len d1 = series_len d2"
  then have k: "keep d1 = keep d2" using keep_series_len by blast
  show ?thesis
    unfolding prune_filter series_len_def proj_filter
    using a unfolding series_len_def k by simp
qed

lemma series_len_series_x: "series_len d = map (\<lambda>(k, xs). (k, length xs)) (series_x d)"
  by (simp add: series_len_def series_x_def len_def x_values_def case_prod_beta)

lemma series_x_series_len: "series_x d1 = series_x d2 \<Longrightarrow> series_len d1 = series_len d2"
  by (simp add: series_len_series_x)

lemma series_x_prune: "series_x d1 = series_x d2 \<Longrightarrow> series_x (prune d1) = series_x (prune d2)"
proof -
  assume a: "series_x d1 = series_x d2"
  then have k: "keep d1 = keep d2" using keep_series_len series_x_series_len by blast
  show ?thesis
    unfolding prune_filter series_x_def proj_filter
    using a unfolding series_x_def k by simp
qed

lemma add_zones_other:
  "k \<noteq> ''hr_z'' \<Longrightarrow>
   map_of (fst (add_zones self zones (dd, td))) k = map_of dd k
   \<and> map_of (snd (add_zones self zones (dd, td))) k = map_of td k"
  by (simp add: add_zones_def Let_def update_conv')

lemma init_graph_data_Inr:
  assumes "init_graph_data main self = Inr a" and "tracklist self = Some tracks"
  shows "\<exists>dd td.
           point_loop self (getMaxHR main) tracks
             (fold (\<lambda>(k, g). AList.update k g) (point_series self False) (distance_data self),
              fold (\<lambda>(k, g). AList.update k g) (point_series self True) (time_data self))
             = Inr (dd, td)
           \<and> distance_data a = fst (add_zones self (getZones main) (prune dd, prune td))
           \<and> time_data a = snd (add_zones self (getZones main) (prune dd, prune td))"
proof -
  let ?st = "(fold (\<lambda>(k, g). AList.update k g) (point_series self False) (distance_data self),
              fold (\<lambda>(k, g). AList.update k g) (point_series self True) (time_data self))"
  show ?thesis
  proof (cases "point_loop self (getMaxHR main) tracks ?st")
    case (Inl e)
    with assms show ?thesis by (simp add: init_graph_data_def)
  next
    case (Inr r)
    obtain dd td where p: "r = (dd, td)" by (cases r)
    obtain dd' td' where z: "add_zones self (getZones main) (prune dd, prune td) = (dd', td')"
      by (cases "add_zones self (getZones main) (prune dd, prune td)")
    from assms Inr p z have "a = self\<lparr> distance_data := dd', time_data := td' \<rparr>"
      by (simp add: init_graph_data_def)
    then have "distance_data a = dd'" "time_data a = td'" by simp_all
    with Inr p z show ?thesis by simp
  qed
qed

lemma pruned_series_hold_points_aux:
  assumes "init_graph_data main self = Inr a" and "tracklist self \<noteq> None" and "k \<noteq> ''hr_z''"
    and "map_of (distance_data a) k = Some g \<or> map_of (time_data a) k = Some g"
  shows "0 < len g"
proof -
  from assms(2) obtain tracks where t: "tracklist self = Some tracks" by auto
  from init_graph_data_Inr [OF assms(1) t] obtain dd td where
    d: "distance_data a = fst (add_zones self (getZones main) (prune dd, prune td))"
    and e: "time_data a = snd (add_zones self (getZones main) (prune dd, prune td))"
    by blast
  from assms(4) have "map_of (prune dd) k = Some g \<or> map_of (prune td) k = Some g"
    unfolding d e using add_zones_other [OF assms(3), of self "getZones main" "prune dd" "prune td"]
    by simp
  then show ?thesis using prune_nonempty by blast
qed

section \<open>The loop over the trackpoints under two measurement systems\<close>

lemma x_values_add_point:
  "x_values (add_point g x y) = (if y = PNone then x_values g else x_values g @ [x])"
  by (simp add: add_point_def addPoints_def x_values_def)

lemma len_add_point: "len (add_point g x y) = (if y = PNone then len g else Suc (len g))"
  by (simp add: add_point_def addPoints_def len_def)

lemma x_values_addBars: "x_values (addBars g x y) = x_values g @ [x]"
  by (simp add: addBars_def x_values_def)

lemma len_addBars: "len (addBars g x y) = Suc (len g)"
  by (simp add: addBars_def len_def)

lemma py_div_Inr_not_None: "py_div a b = Inr r \<Longrightarrow> r \<noteq> PNone \<and> a \<noteq> PNone"
  by (cases a; cases b) (auto simp: py_div_def is_number_def split: if_splits)

lemma py_mul_Inr_not_None: "py_mul a b = Inr r \<Longrightarrow> r \<noteq> PNone \<and> a \<noteq> PNone"
  by (cases a; cases b) (auto simp: py_mul_def is_number_def split: if_splits)

lemma stmt_rel_same: "stmt_rel (tg, n, Inr x, y) (tg, n, Inr x, y)"
  by (cases y) (simp_all add: stmt_rel_def)

lemma stmt_rel_conv:
  assumes "\<And>r. cy = Inr r \<Longrightarrow> r \<noteq> PNone \<and> y \<noteq> PNone"
  shows "stmt_rel (tg, n, Inr x, cy) (tg, n, Inr x, Inr y)"
    and "stmt_rel (tg, n, Inr x, Inr y) (tg, n, Inr x, cy)"
    and "stmt_rel (Dist, n, cx, cy) (Dist, n, cx', Inr y)"
    and "stmt_rel (Dist, n, cx', Inr y) (Dist, n, cx, cy)"
  using assms by (cases cy; cases cx; cases cx'; simp add: stmt_rel_def)+

lemma stmt_rel_dist: "stmt_rel (Dist, n, cx, Inr y) (Dist, n, cx', Inr y)"
  by (cases cx; cases cx'; simp add: stmt_rel_def)

lemma stmt_rel_refl: "stmt_rel s s"
proof -
  obtain tg n x y where s: "s = (tg, n, x, y)" by (cases s)
  show ?thesis unfolding s by (cases x; cases y) (simp_all add: stmt_rel_def)
qed

lemma point_stmts_rel:
  "list_all2 stmt_rel (point_stmts s1 track pc hr_p) (point_stmts s2 track pc hr_p)"
proof (cases "us_system s1 = us_system s2")
  case True
  then have "point_stmts s1 track pc hr_p = point_stmts s2 track pc hr_p"
    by (simp add: point_stmts_def)
  then show ?thesis by (simp add: list_all2_refl stmt_rel_refl)
next
  case False
  have m: "\<And>v r. m2feet (PFloat v) = Inr r \<Longrightarrow> r \<noteq> PNone \<and> PFloat v \<noteq> PNone"
    by (simp add: m2feet_def py_arith)
  have k: "\<And>v r. km2miles (PFloat v) = Inr r \<Longrightarrow> r \<noteq> PNone \<and> PFloat v \<noteq> PNone"
    by (simp add: km2miles_def py_arith)
  have p: "\<And>r. pacekm2miles pc = Inr r \<Longrightarrow> r \<noteq> PNone \<and> pc \<noteq> PNone"
    unfolding pacekm2miles_def by (rule py_div_Inr_not_None)
  note c = stmt_rel_conv [OF m] stmt_rel_conv [OF k] stmt_rel_conv [OF p] stmt_rel_refl stmt_rel_dist
  from False show ?thesis
    by (cases "us_system s1"; cases "us_system s2") (simp_all add: point_stmts_def Let_def c)
qed

lemma run_adds_point_proj:
  assumes a: "list_all2 stmt_rel s1 s2" and b: "series_x td1 = series_x td2" and c: "series_len dd1 = series_len dd2"
    and d: "run_adds add_point s1 (dd1, td1) = Inr (dd1', td1')"
    and e: "run_adds add_point s2 (dd2, td2) = Inr (dd2', td2')"
  shows "series_x td1' = series_x td2' \<and> series_len dd1' = series_len dd2'"
  by (rule run_adds_proj [where add = add_point and add' = add_point, OF _ _ a b c d e])
     (simp_all add: x_values_add_point len_add_point)

lemma point_loop_Cons_Inr:
  assumes "point_loop self m (track # rest) st = Inr r"
  shows "\<exists>pc hr_p dd td.
           point_pace (pace_limit self) (PFloat (velocity track)) = Inr pc
           \<and> point_hr_p m (opt_int (hr track)) = Inr hr_p
           \<and> run_adds add_point (point_stmts self track pc hr_p) st = Inr (dd, td)
           \<and> point_loop self m rest (dd, td) = Inr r"
proof (cases "point_pace (pace_limit self) (PFloat (velocity track))")
  case (Inl e)
  with assms show ?thesis by simp
next
  case pc: (Inr pc)
  show ?thesis
  proof (cases "point_hr_p m (opt_int (hr track))")
    case (Inl e)
    with assms pc show ?thesis by simp
  next
    case hp: (Inr hr_p)
    show ?thesis
    proof (cases "run_adds add_point (point_stmts self track pc hr_p) st")
      case (Inl e)
      with assms pc hp show ?thesis by simp
    next
      case (Inr st')
      obtain dd td where "st' = (dd, td)" by (cases st')
      with assms pc hp Inr show ?thesis by simp
    qed
  qed
qed

lemma point_loop_proj:
  assumes pl: "pace_limit s1 = pace_limit s2"
  shows "series_x td1 = series_x td2 \<Longrightarrow> series_len dd1 = series_len dd2 \<Longrightarrow>
         point_loop s1 m tracks (dd1, td1) = Inr (dd1', td1') \<Longrightarrow>
         point_loop s2 m tracks (dd2, td2) = Inr (dd2', td2') \<Longrightarrow>
         series_x td1' = series_x td2' \<and> series_len dd1' = series_len dd2'"
proof (induction tracks arbitrary: dd1 td1 dd2 td2)
  case Nil
  then show ?case by simp
next
  case (Cons track rest)
  from point_loop_Cons_Inr [OF Cons.prems(3)] obtain pc hr_p da ta where
    pc: "point_pace (pace_limit s1) (PFloat (velocity track)) = Inr pc"
    and hp: "point_hr_p m (opt_int (hr track)) = Inr hr_p"
    and ra: "run_adds add_point (point_stmts s1 track pc hr_p) (dd1, td1) = Inr (da, ta)"
    and la: "point_loop s1 m rest (da, ta) = Inr (dd1', td1')"
    by blast
  from point_loop_Cons_Inr [OF Cons.prems(4)] obtain pc' hr_p' db tb where
    pc': "point_pace (pace_limit s2) (PFloat (velocity track)) = Inr pc'"
    and hp': "point_hr_p m (opt_int (hr track)) = Inr hr_p'"
    and rb: "run_adds add_point (point_stmts s2 track pc' hr_p') (dd2, td2) = Inr (db, tb)"
    and lb: "point_loop s2 m rest (db, tb) = Inr (dd2', td2')"
    by blast
  from pc pc' pl have e1: "pc' = pc" by simp
  from hp hp' have e2: "hr_p' = hr_p" by simp
  from run_adds_point_proj [OF point_stmts_rel Cons.prems(1) Cons.prems(2) ra rb [unfolded e1 e2]]
  have "series_x ta = series_x tb" "series_len da = series_len db" by simp_all
  from Cons.IH [OF this la lb] show ?case .
qed

lemma proj_fold_update:
  "map (\<lambda>(k, g). (k, h g)) ps1 = map (\<lambda>(k, g). (k, h g)) ps2 \<Longrightarrow>
   map (\<lambda>(k, g). (k, h g)) d1 = map (\<lambda>(k, g). (k, h g)) d2 \<Longrightarrow>
   map (\<lambda>(k, g). (k, h g)) (fold (\<lambda>(k, g). AList.update k g) ps1 d1)
     = map (\<lambda>(k, g). (k, h g)) (fold (\<lambda>(k, g). AList.update k g) ps2 d2)"
proof (induction ps1 arbitrary: ps2 d1 d2)
  case Nil
  then show ?case by simp
next
  case (Cons p ps1)
  from Cons.prems(1) obtain q r where ps2: "ps2 = q # r" by (cases ps2) auto
  obtain k g where p: "p = (k, g)" by (cases p)
  obtain k' g' where q: "q = (k', g')" by (cases q)
  from Cons.prems(1) have e: "k' = k" "h g = h g'"
    and t: "map (\<lambda>(k, g). (k, h g)) ps1 = map (\<lambda>(k, g). (k, h g)) r"
    by (simp_all add: ps2 p q)
  have "map (\<lambda>(k, g). (k, h g)) (AList.update k g d1) = map (\<lambda>(k, g). (k, h g)) (AList.update k g' d2)"
    by (simp add: proj_update e Cons.prems(2))
  from Cons.IH [OF t this] show ?case by (simp add: ps2 p q e)
qed

lemma series_x_point_series: "series_x (point_series s1 b) = series_x (point_series s2 b)"
  by (simp add: series_x_def point_series_def Let_def x_values_def GraphData_def set_color_def)

lemma series_len_point_series: "series_len (point_series s1 b) = series_len (point_series s2 b)"
  by (simp add: series_len_def point_series_def Let_def len_def GraphData_def set_color_def)

lemma series_len_None: "series_len d1 = series_len d2 \<Longrightarrow> (map_of d1 k = None) = (map_of d2 k = None)"
proof -
  assume a: "series_len d1 = series_len d2"
  have "map_option len (map_of d1 k) = map_of (series_len d1) k"
    unfolding series_len_def by (simp add: proj_map_of)
  also have "\<dots> = map_of (series_len d2) k" by (simp only: a)
  also have "\<dots> = map_option len (map_of d2 k)"
    unfolding series_len_def by (simp add: proj_map_of)
  finally show ?thesis
    by (cases "map_of d1 k"; cases "map_of d2 k") simp_all
qed

lemma add_zones_series_x:
  assumes a: "series_len dd1 = series_len dd2" and b: "series_x td1 = series_x td2"
  shows "series_x (snd (add_zones s1 zones (dd1, td1))) = series_x (snd (add_zones s2 zones (dd2, td2)))"
proof (cases "map_of dd1 ''hr'' = None")
  case True
  with series_len_None [OF a, of "''hr''"] have "map_of dd2 ''hr'' = None" by simp
  with True b show ?thesis by (simp add: add_zones_def)
next
  case False
  with series_len_None [OF a, of "''hr''"] have f2: "map_of dd2 ''hr'' \<noteq> None" by simp
  define G where "G = fold (\<lambda>(x, y, l, c) acc. addPoints acc x y l c) (zone_points zones)
      (set_color PNone PNone
         (GraphData ''Heart Rate zone'' ''Time (seconds)'' (axis_label ''Heart Rate'' ''bpm'')))"
  from False have e1: "snd (add_zones s1 zones (dd1, td1)) = AList.update ''hr_z'' G td1"
    by (simp add: add_zones_def Let_def G_def)
  from f2 have e2: "snd (add_zones s2 zones (dd2, td2)) = AList.update ''hr_z'' G td2"
    by (simp add: add_zones_def Let_def G_def)
  show ?thesis unfolding e1 e2 using b refl by (rule series_x_update)
qed

lemma init_graph_data_series_x:
  assumes r1: "init_graph_data main s1 = Inr a1" and r2: "init_graph_data main s2 = Inr a2"
    and t: "tracklist s1 = tracklist s2" and pl: "pace_limit s1 = pace_limit s2"
    and x: "series_x (time_data s1) = series_x (time_data s2)"
    and l: "series_len (distance_data s1) = series_len (distance_data s2)"
  shows "series_x (time_data a1) = series_x (time_data a2)"
proof (cases "tracklist s1")
  case None
  with r1 have "a1 = s1" by (simp add: init_graph_data_def)
  moreover from None t r2 have "a2 = s2" by (simp add: init_graph_data_def)
  ultimately show ?thesis using x by simp
next
  case (Some tracks)
  from init_graph_data_Inr [OF r1 Some] obtain dd1 td1 where
    p1: "point_loop s1 (getMaxHR main) tracks
           (fold (\<lambda>(k, g). AList.update k g) (point_series s1 False) (distance_data s1),
            fold (\<lambda>(k, g). AList.update k g) (point_series s1 True) (time_data s1)) = Inr (dd1, td1)"
    and e1: "time_data a1 = snd (add_zones s1 (getZones main) (prune dd1, prune td1))"
    by blast
  from Some t have "tracklist s2 = Some tracks" by simp
  from init_graph_data_Inr [OF r2 this] obtain dd2 td2 where
    p2: "point_loop s2 (getMaxHR main) tracks
           (fold (\<lambda>(k, g). AList.update k g) (point_series s2 False) (distance_data s2),
            fold (\<lambda>(k, g). AList.update k g) (point_series s2 True) (time_data s2)) = Inr (dd2, td2)"
    and e2: "time_data a2 = snd (add_zones s2 (getZones main) (prune dd2, prune td2))"
    by blast
  have x0: "series_x (fold (\<lambda>(k, g). AList.update k g) (point_series s1 True) (time_data s1))
          = series_x (fold (\<lambda>(k, g). AList.update k g) (point_series s2 True) (time_data s2))"
    unfolding series_x_def
    by (rule proj_fold_update [OF series_x_point_series [unfolded series_x_def] x [unfolded series_x_def]])
  have l0: "series_len (fold (\<lambda>(k, g). AList.update k g) (point_series s1 False) (distance_data s1))
          = series_len (fold (\<lambda>(k, g). AList.update k g) (point_series s2 False) (distance_data s2))"
    unfolding series_len_def
    by (rule proj_fold_update [OF series_len_point_series [unfolded series_len_def] l [unfolded series_len_def]])
  from point_loop_proj [OF pl x0 l0 p1 p2] have pq: "series_x td1 = series_x td2" "series_len dd1 = series_len dd2"
    by blast+
  have "series_x (prune td1) = series_x (prune td2)" using pq(1) by (rule series_x_prune)
  moreover have "series_len (prune dd1) = series_len (prune dd2)" using pq(2) by (rule series_len_prune)
  ultimately show ?thesis unfolding e1 e2 by (rule add_zones_series_x [rotated])
qed

section \<open>Series generation returns\<close>

lemma dom_update_present:
  "k \<in> dom (map_of al) \<Longrightarrow> dom (map_of (AList.update k v al)) = dom (map_of al)"
  by (auto simp: update_conv')

lemma run_adds_total:
  "\<forall>s\<in>set stmts. fst (snd s) \<in> K \<and> (\<exists>xv. fst (snd (snd s)) = Inr xv) \<and> (\<exists>yv. snd (snd (snd s)) = Inr yv) \<Longrightarrow>
   K \<subseteq> dom (map_of dd) \<Longrightarrow> K \<subseteq> dom (map_of td) \<Longrightarrow>
   \<exists>dd' td'. run_adds add stmts (dd, td) = Inr (dd', td')
     \<and> dom (map_of dd') = dom (map_of dd) \<and> dom (map_of td') = dom (map_of td)"
proof (induction stmts arbitrary: dd td)
  case Nil
  then show ?case by simp
next
  case (Cons s stmts)
  obtain tg n x y where s: "s = (tg, n, x, y)" by (cases s)
  from Cons.prems(1) s obtain xv yv where n: "n \<in> K" and x: "x = Inr xv" and y: "y = Inr yv"
    by auto
  from Cons.prems(1)
  have rest: "\<forall>s\<in>set stmts. fst (snd s) \<in> K \<and> (\<exists>xv. fst (snd (snd s)) = Inr xv) \<and> (\<exists>yv. snd (snd (snd s)) = Inr yv)"
    by simp
  show ?case
  proof (cases tg)
    case Dist
    from n Cons.prems(2) obtain g where g: "map_of dd n = Some g" by auto
    then have d: "dom (map_of (AList.update n (add g xv yv) dd)) = dom (map_of dd)"
      by (intro dom_update_present) auto
    with Cons.prems(2) have k: "K \<subseteq> dom (map_of (AList.update n (add g xv yv) dd))" by simp
    from Cons.IH [OF rest k Cons.prems(3)] d g show ?thesis by (simp add: s x y Dist)
  next
    case Time
    from n Cons.prems(3) obtain g where g: "map_of td n = Some g" by auto
    then have d: "dom (map_of (AList.update n (add g xv yv) td)) = dom (map_of td)"
      by (intro dom_update_present) auto
    with Cons.prems(3) have k: "K \<subseteq> dom (map_of (AList.update n (add g xv yv) td))" by simp
    from Cons.IH [OF rest Cons.prems(2) k] d g show ?thesis by (simp add: s x y Time)
  qed
qed

lemma pacekm2miles_total: "num_of pc \<noteq> None \<Longrightarrow> \<exists>r. pacekm2miles pc = Inr r"
  by (cases pc) (simp_all add: pacekm2miles_def py_arith)

lemma km2miles_total: "num_of v \<noteq> None \<Longrightarrow> \<exists>r. km2miles v = Inr r"
  by (cases v) (simp_all add: km2miles_def py_arith)

lemma point_stmts_ok:
  assumes "num_of pc \<noteq> None"
  shows "\<forall>s\<in>set (point_stmts self track pc hr_p).
           fst (snd s) \<in> {''elevation'', ''cor_elevation'', ''speed'', ''pace'', ''hr'', ''hr_p'', ''cadence''}
           \<and> (\<exists>xv. fst (snd (snd s)) = Inr xv) \<and> (\<exists>yv. snd (snd (snd s)) = Inr yv)"
proof -
  from pacekm2miles_total [OF assms(1)] obtain r where r: "pacekm2miles pc = Inr r" by blast
  show ?thesis
    by (cases "us_system self") (simp_all add: point_stmts_def Let_def r km2miles_def m2feet_def py_arith)
qed

lemma point_pace_total:
  "\<not> is_float_special limit \<Longrightarrow> \<exists>pc. point_pace limit (PFloat v) = Inr pc \<and> num_of pc \<noteq> None"
  by (cases limit) (simp_all add: point_pace_float)

lemma point_hr_p_total: "\<exists>h. point_hr_p m (opt_int x) = Inr h"
  by (cases x) (simp_all add: point_hr_p_def opt_int_def try_except_def py_arith)

lemma point_loop_total:
  assumes "\<not> is_float_special (pace_limit self)"
  shows "{''elevation'', ''cor_elevation'', ''speed'', ''pace'', ''hr'', ''hr_p'', ''cadence''} \<subseteq> dom (map_of dd) \<Longrightarrow>
         {''elevation'', ''cor_elevation'', ''speed'', ''pace'', ''hr'', ''hr_p'', ''cadence''} \<subseteq> dom (map_of td) \<Longrightarrow>
         \<exists>dd' td'. point_loop self m tracks (dd, td) = Inr (dd', td')"
proof (induction tracks arbitrary: dd td)
  case Nil
  then show ?case by simp
next
  case (Cons track rest)
  let ?K = "{''elevation'', ''cor_elevation'', ''speed'', ''pace'', ''hr'', ''hr_p'', ''cadence''}"
  from point_pace_total [OF assms] obtain pc where
    pc: "point_pace (pace_limit self) (PFloat (velocity track)) = Inr pc" and n: "num_of pc \<noteq> None"
    by blast
  from point_hr_p_total obtain h where h: "point_hr_p m (opt_int (hr track)) = Inr h" by blast
  from run_adds_total [where K = ?K and add = add_point, OF point_stmts_ok [OF n] Cons.prems]
  obtain dd' td' where r: "run_adds add_point (point_stmts self track pc h) (dd, td) = Inr (dd', td')"
    and d: "dom (map_of dd') = dom (map_of dd)" "dom (map_of td') = dom (map_of td)"
    by blast
  from Cons.prems d have "?K \<subseteq> dom (map_of dd')" "?K \<subseteq> dom (map_of td')" by simp_all
  from Cons.IH [OF this] pc h r show ?case by simp
qed

lemma point_series_keys:
  "{''elevation'', ''cor_elevation'', ''speed'', ''pace'', ''hr'', ''hr_p'', ''cadence''}
     \<subseteq> dom (map_of (fold (\<lambda>(k, g). AList.update k g) (point_series self b) d))"
  by (simp add: point_series_def Let_def update_conv')

lemma init_graph_data_total:
  assumes "\<not> is_float_special (pace_limit self)"
  shows "\<exists>dd td. init_graph_data main self = Inr (self\<lparr> distance_data := dd, time_data := td \<rparr>)"
proof (cases "tracklist self")
  case None
  then have "init_graph_data main self
      = Inr (self\<lparr> distance_data := distance_data self, time_data := time_data self \<rparr>)"
    by (simp add: init_graph_data_def)
  then show ?thesis by blast
next
  case (Some tracks)
  from point_loop_total [OF assms point_series_keys point_series_keys]
  obtain dd td where p: "point_loop self (getMaxHR main) tracks
           (fold (\<lambda>(k, g). AList.update k g) (point_series self False) (distance_data self),
            fold (\<lambda>(k, g). AList.update k g) (point_series self True) (time_data self)) = Inr (dd, td)"
    by blast
  obtain dd' td' where z: "add_zones self (getZones main) (prune dd, prune td) = (dd', td')"
    by (cases "add_zones self (getZones main) (prune dd, prune td)")
  from Some p z have "init_graph_data main self = Inr (self\<lparr> distance_data := dd', time_data := td' \<rparr>)"
    by (simp add: init_graph_data_def)
  then show ?thesis by blast
qed

lemmas eval_defs =
  init_graph_data_def with_system_def set_units_def blank_def example_main_def example_point_def
  example_activity_def point_pace_float point_hr_p_def opt_int_def try_except_def py_arith
  point_stmts_def Let_def add_point_def addPoints_def point_series_def GraphData_def set_color_def
  axis_label_def km2miles_def m2feet_def pacekm2miles_def update_conv' map_of_prune keep_def len_def
  add_zones_def zone_points_def py_eq_def

section \<open>Series without values\<close>

lemma example_series_metric:
  "\<exists>a g. init_graph_data (example_main (PStr ''False'') None [example_row] None)
            (with_system False (example_activity [example_point 1 300 12 None])) = Inr a
     \<and> map_of (time_data a) ''speed'' = Some g \<and> map_of (time_data a) ''hr'' = None
     \<and> map_of (distance_data a) ''cadence'' = None"
  by (simp add: eval_defs)

text \<open>
  Claim C3 says that after the series are generated no series of the two dictionaries is
  empty, the series by lap and the zone series included. What holds is narrower: when
  \<^verbatim>\<open>_init_graph_data\<close> has run over a track list, every series of the two dictionaries other
  than the zone series \<^verbatim>\<open>hr_z\<close> holds at least one point. The zone series is added after the
  removal, and the series by lap are created later by \<^verbatim>\<open>_generate_per_lap_graphs\<close>, which
  removes nothing.
\<close>

theorem pruned_series_hold_points:
  assumes "init_graph_data main self = Inr a" and "tracklist self \<noteq> None" and "k \<noteq> ''hr_z''"
    and "map_of (distance_data a) k = Some g \<or> map_of (time_data a) k = Some g"
  shows "0 < len g"
  using assms by (rule pruned_series_hold_points_aux)

theorem pruned_series_hold_points_witness:
  "\<exists>a g. init_graph_data (example_main (PStr ''False'') None [example_row] None)
            (with_system False (example_activity [example_point 1 300 12 None])) = Inr a
     \<and> map_of (time_data a) ''speed'' = Some g \<and> 0 < len g
     \<and> map_of (time_data a) ''hr'' = None \<and> map_of (distance_data a) ''cadence'' = None"
proof -
  let ?M = "example_main (PStr ''False'') None [example_row] None"
  let ?S = "with_system False (example_activity [example_point 1 300 12 None])"
  from example_series_metric obtain a g where
    r: "init_graph_data ?M ?S = Inr a" and s: "map_of (time_data a) ''speed'' = Some g"
    and h: "map_of (time_data a) ''hr'' = None" and c: "map_of (distance_data a) ''cadence'' = None"
    by blast
  have t: "tracklist ?S \<noteq> None"
    by (simp add: with_system_def set_units_def Let_def example_activity_def)
  have "0 < len g"
    using pruned_series_hold_points [OF r t, of "''speed''" g] s by simp
  with r s h c show ?thesis by blast
qed

text \<open>
  The counterexample to claim C3: an activity with one row in the database, no track log
  and an empty list of laps. The constructor succeeds, and the series by lap are present
  in both dictionaries with no point.
\<close>

theorem empty_lap_series_are_kept:
  "\<exists>a ins g h. init (Some (example_main (PStr ''False'') None [example_row] (Some []))) (PInt 7)
       = Inr (Populated a, ins)
     \<and> map_of (distance_data a) ''pace_lap'' = Some g \<and> len g = 0
     \<and> map_of (time_data a) ''speed_lap'' = Some h \<and> len h = 0"
  by (simp add: init_def Let_def set_units_def blank_def example_main_def example_row_def
      init_from_db_def fmt_d_check_def py_eq_def init_graph_data_def generate_per_lap_graphs_def
      lap_series_def self_int_def self_float_def len_def GraphData_def set_color_def update_conv')

section \<open>The time axis\<close>

lemma with_system_fields:
  "tracklist (with_system b self) = tracklist self"
  "pace_limit (with_system b self) = pace_limit self"
  "time_data (with_system b self) = time_data self"
  "distance_data (with_system b self) = distance_data self"
  by (simp_all add: with_system_def set_units_def Let_def)

lemma time_stmts_x:
  "\<forall>s\<in>set (point_stmts self track pc hr_p).
     fst s = Time \<longrightarrow> fst (snd (snd s)) = Inr (PFloat (time_elapsed track))"
  by (simp add: point_stmts_def Let_def)

lemma example_series_imperial:
  "\<exists>a. init_graph_data (example_main (PStr ''False'') None [example_row] None)
            (with_system True (example_activity [example_point 1 300 12 (Some 150), example_point 2 600 0 None])) = Inr a
     \<and> map_of (series_x (time_data a)) ''speed'' = Some [PFloat 300, PFloat 600]
     \<and> map_of (series_x (time_data a)) ''hr'' = Some [PFloat 300]
     \<and> map_of (series_x (distance_data a)) ''speed'' = Some [PFloat 0.621371, PFloat 1.242742]"
  by (simp add: eval_defs series_x_def proj_map_of x_values_def)

text \<open>
  Claim C9. Every statement of the loop body that adds a point to a series by time passes
  the elapsed time of the trackpoint as the x-value, in both measurement systems. Two runs
  of \<^verbatim>\<open>_init_graph_data\<close> on the same activity, one metric and one imperial, give the same
  sequence of x-values in every series by time; and both runs return whenever the pace
  limit is a finite number, text or absent.
\<close>

theorem time_axis_not_converted:
  "(\<forall>s\<in>set (point_stmts self track pc hr_p).
      fst s = Time \<longrightarrow> fst (snd (snd s)) = Inr (PFloat (time_elapsed track)))
   \<and> (init_graph_data main (with_system False self) = Inr am
        \<and> init_graph_data main (with_system True self) = Inr ai
        \<longrightarrow> series_x (time_data am) = series_x (time_data ai))
   \<and> (\<not> is_float_special (pace_limit self) \<longrightarrow>
        (\<exists>bm bi. init_graph_data main (with_system False self) = Inr bm
                \<and> init_graph_data main (with_system True self) = Inr bi))"
proof (intro conjI)
  show "\<forall>s\<in>set (point_stmts self track pc hr_p).
      fst s = Time \<longrightarrow> fst (snd (snd s)) = Inr (PFloat (time_elapsed track))"
    by (rule time_stmts_x)
next
  show "init_graph_data main (with_system False self) = Inr am
        \<and> init_graph_data main (with_system True self) = Inr ai
        \<longrightarrow> series_x (time_data am) = series_x (time_data ai)"
  proof (intro impI, elim conjE)
    assume m: "init_graph_data main (with_system False self) = Inr am"
      and i: "init_graph_data main (with_system True self) = Inr ai"
    show "series_x (time_data am) = series_x (time_data ai)"
      by (rule init_graph_data_series_x [OF m i]) (simp_all add: with_system_fields)
  qed
next
  show "\<not> is_float_special (pace_limit self) \<longrightarrow>
        (\<exists>bm bi. init_graph_data main (with_system False self) = Inr bm
                \<and> init_graph_data main (with_system True self) = Inr bi)"
  proof
    assume p: "\<not> is_float_special (pace_limit self)"
    then have "\<not> is_float_special (pace_limit (with_system False self))"
      and "\<not> is_float_special (pace_limit (with_system True self))"
      by (simp_all add: with_system_fields)
    from init_graph_data_total [OF this(1), of main] init_graph_data_total [OF this(2), of main]
    show "\<exists>bm bi. init_graph_data main (with_system False self) = Inr bm
                \<and> init_graph_data main (with_system True self) = Inr bi"
      by blast
  qed
qed

theorem time_axis_not_converted_witness:
  "\<exists>am ai. init_graph_data (example_main (PStr ''False'') None [example_row] None)
              (with_system False (example_activity [example_point 1 300 12 (Some 150), example_point 2 600 0 None]))
              = Inr am
     \<and> init_graph_data (example_main (PStr ''False'') None [example_row] None)
              (with_system True (example_activity [example_point 1 300 12 (Some 150), example_point 2 600 0 None]))
              = Inr ai
     \<and> series_x (time_data am) = series_x (time_data ai)
     \<and> map_of (series_x (time_data ai)) ''speed'' = Some [PFloat 300, PFloat 600]
     \<and> map_of (series_x (distance_data ai)) ''speed'' = Some [PFloat 0.621371, PFloat 1.242742]"
proof -
  let ?M = "example_main (PStr ''False'') None [example_row] None"
  let ?S = "example_activity [example_point 1 300 12 (Some 150), example_point 2 600 0 None]"
  note inst = time_axis_not_converted [where self = ?S and main = ?M]
  have p: "\<not> is_float_special (pace_limit ?S)"
    by (simp add: example_activity_def blank_def)
  from inst p obtain am ai where
    m: "init_graph_data ?M (with_system False ?S) = Inr am"
    and i: "init_graph_data ?M (with_system True ?S) = Inr ai"
    by blast
  from inst [where am = am and ai = ai] m i have e: "series_x (time_data am) = series_x (time_data ai)"
    by blast
  from example_series_imperial i have
    "map_of (series_x (time_data ai)) ''speed'' = Some [PFloat 300, PFloat 600]"
    "map_of (series_x (distance_data ai)) ''speed'' = Some [PFloat 0.621371, PFloat 1.242742]"
    by auto
  with m i e show ?thesis by blast
qed

section \<open>The effect of the statements on one series\<close>

lemma run_adds_lookup:
  "run_adds add stmts (dd, td) = Inr (dd', td') \<Longrightarrow>
     map_of dd' k = map_option (fold (stmt_effect add Dist k) stmts) (map_of dd k)
   \<and> map_of td' k = map_option (fold (stmt_effect add Time k) stmts) (map_of td k)"
proof (induction stmts arbitrary: dd td)
  case Nil
  then show ?case by (cases "map_of dd k"; cases "map_of td k") simp_all
next
  case (Cons s stmts)
  obtain tg n x y where s: "s = (tg, n, x, y)" by (cases s)
  from Cons.prems [unfolded s] obtain g xv yv where
    g: "map_of (if tg = Dist then dd else td) n = Some g" and x: "x = Inr xv" and y: "y = Inr yv"
    and r: "run_adds add stmts (if tg = Dist then (AList.update n (add g xv yv) dd, td)
                                 else (dd, AList.update n (add g xv yv) td)) = Inr (dd', td')"
    using run_adds_Cons_Inr by blast
  show ?case
  proof (cases tg)
    case Dist
    from r Dist have "run_adds add stmts (AList.update n (add g xv yv) dd, td) = Inr (dd', td')"
      by simp
    from Cons.IH [OF this] g Dist show ?thesis
      by (cases "map_of dd k"; cases "map_of td k"; cases "n = k")
         (simp_all add: s x y stmt_effect_def update_conv')
  next
    case Time
    from r Time have "run_adds add stmts (dd, AList.update n (add g xv yv) td) = Inr (dd', td')"
      by simp
    from Cons.IH [OF this] g Time show ?thesis
      by (cases "map_of dd k"; cases "map_of td k"; cases "n = k")
         (simp_all add: s x y stmt_effect_def update_conv')
  qed
qed

lemma point_stmts_pace_effect:
  assumes "(if us_system self then pacekm2miles pc else Inr pc) = Inr y"
    and "(if us_system self then km2miles (PFloat (elapsed_distance track))
          else Inr (PFloat (elapsed_distance track))) = Inr x"
  shows "fold (stmt_effect add_point Time ''pace'') (point_stmts self track pc hr_p) g
           = add_point g (PFloat (time_elapsed track)) y"
    and "fold (stmt_effect add_point Dist ''pace'') (point_stmts self track pc hr_p) g
           = add_point g x y"
  using assms by (cases "us_system self"; simp add: point_stmts_def Let_def stmt_effect_def)+

lemma point_pace_spec:
  "\<not> is_float_special limit \<Longrightarrow> point_pace limit (PFloat v) = Inr (spec_point_pace limit v)"
  by (cases limit) (simp_all add: point_pace_float spec_point_pace_def)

lemma spec_point_pace_num: "num_of (spec_point_pace limit v) \<noteq> None"
  by (simp add: spec_point_pace_def split: option.splits)

lemma y_values_add_point:
  "y_values (add_point g x y) = (if y = PNone then y_values g else y_values g @ [y])"
  by (simp add: add_point_def addPoints_def y_values_def)

lemma emitted_not_None:
  assumes "(if us then pacekm2miles pc else Inr pc) = Inr y" and "num_of pc \<noteq> None"
  shows "y \<noteq> PNone"
proof (cases us)
  case True
  with assms(1) have "py_div pc (PFloat 0.621371) = Inr y" by (simp add: pacekm2miles_def)
  from py_div_Inr_not_None [OF this] show ?thesis by simp
next
  case False
  with assms show ?thesis by auto
qed

lemma point_loop_pace:
  assumes sp: "\<not> is_float_special (pace_limit self)"
  shows "point_loop self m tracks (dd, td) = Inr (dd', td') \<Longrightarrow>
         map_of dd ''pace'' = Some gd \<Longrightarrow> map_of td ''pace'' = Some gt \<Longrightarrow>
         \<exists>gd' gt'. map_of dd' ''pace'' = Some gd' \<and> map_of td' ''pace'' = Some gt'
           \<and> x_values gt' = x_values gt @ map (\<lambda>tr. PFloat (time_elapsed tr)) tracks
           \<and> map Inr (x_values gd')
               = map Inr (x_values gd)
                 @ map (\<lambda>tr. if us_system self then km2miles (PFloat (elapsed_distance tr))
                              else Inr (PFloat (elapsed_distance tr))) tracks
           \<and> map Inr (y_values gt')
               = map Inr (y_values gt)
                 @ map (\<lambda>tr. if us_system self
                              then pacekm2miles (spec_point_pace (pace_limit self) (velocity tr))
                              else Inr (spec_point_pace (pace_limit self) (velocity tr))) tracks
           \<and> map Inr (y_values gd')
               = map Inr (y_values gd)
                 @ map (\<lambda>tr. if us_system self
                              then pacekm2miles (spec_point_pace (pace_limit self) (velocity tr))
                              else Inr (spec_point_pace (pace_limit self) (velocity tr))) tracks"
proof (induction tracks arbitrary: dd td gd gt)
  case Nil
  then show ?case by simp
next
  case (Cons track rest)
  let ?pc = "spec_point_pace (pace_limit self) (velocity track)"
  from point_loop_Cons_Inr [OF Cons.prems(1)] obtain pc hr_p da ta where
    pc: "point_pace (pace_limit self) (PFloat (velocity track)) = Inr pc"
    and ra: "run_adds add_point (point_stmts self track pc hr_p) (dd, td) = Inr (da, ta)"
    and la: "point_loop self m rest (da, ta) = Inr (dd', td')"
    by blast
  from pc point_pace_spec [OF sp, of "velocity track"] have pcv: "pc = ?pc" by simp
  from pacekm2miles_total [OF spec_point_pace_num] obtain r where
    r: "pacekm2miles ?pc = Inr r" by blast
  define y where "y = (if us_system self then r else ?pc)"
  have ey: "(if us_system self then pacekm2miles ?pc else Inr ?pc) = Inr y"
    by (simp add: y_def r)
  have "\<exists>x. (if us_system self then km2miles (PFloat (elapsed_distance track))
          else Inr (PFloat (elapsed_distance track))) = Inr x"
    by (simp add: km2miles_def py_arith)
  then obtain x where ex: "(if us_system self then km2miles (PFloat (elapsed_distance track))
          else Inr (PFloat (elapsed_distance track))) = Inr x"
    by blast
  from emitted_not_None [OF ey spec_point_pace_num] have yn: "y \<noteq> PNone" .
  from run_adds_lookup [OF ra, of "''pace''"] Cons.prems(2) Cons.prems(3)
  have da: "map_of da ''pace'' = Some (add_point gd x y)"
    and ta: "map_of ta ''pace'' = Some (add_point gt (PFloat (time_elapsed track)) y)"
    by (simp_all add: pcv point_stmts_pace_effect [OF ey ex])
  from Cons.IH [OF la da ta] obtain gd' gt' where
    a: "map_of dd' ''pace'' = Some gd'" "map_of td' ''pace'' = Some gt'"
    and b: "x_values gt' = x_values (add_point gt (PFloat (time_elapsed track)) y)
              @ map (\<lambda>tr. PFloat (time_elapsed tr)) rest"
    and c: "map Inr (x_values gd')
               = map Inr (x_values (add_point gd x y))
                 @ map (\<lambda>tr. if us_system self then km2miles (PFloat (elapsed_distance tr))
                              else Inr (PFloat (elapsed_distance tr))) rest"
    and d: "map Inr (y_values gt')
               = map Inr (y_values (add_point gt (PFloat (time_elapsed track)) y))
                 @ map (\<lambda>tr. if us_system self
                              then pacekm2miles (spec_point_pace (pace_limit self) (velocity tr))
                              else Inr (spec_point_pace (pace_limit self) (velocity tr))) rest"
    and e: "map Inr (y_values gd')
               = map Inr (y_values (add_point gd x y))
                 @ map (\<lambda>tr. if us_system self
                              then pacekm2miles (spec_point_pace (pace_limit self) (velocity tr))
                              else Inr (spec_point_pace (pace_limit self) (velocity tr))) rest"
    by blast
  have b': "x_values gt' = x_values gt @ map (\<lambda>tr. PFloat (time_elapsed tr)) (track # rest)"
    using b yn by (simp add: x_values_add_point)
  have c': "map Inr (x_values gd')
               = map Inr (x_values gd)
                 @ map (\<lambda>tr. if us_system self then km2miles (PFloat (elapsed_distance tr))
                              else Inr (PFloat (elapsed_distance tr))) (track # rest)"
    using c yn ex by (simp add: x_values_add_point)
  have d': "map Inr (y_values gt')
               = map Inr (y_values gt)
                 @ map (\<lambda>tr. if us_system self
                              then pacekm2miles (spec_point_pace (pace_limit self) (velocity tr))
                              else Inr (spec_point_pace (pace_limit self) (velocity tr))) (track # rest)"
    using d yn ey by (simp add: y_values_add_point)
  have e': "map Inr (y_values gd')
               = map Inr (y_values gd)
                 @ map (\<lambda>tr. if us_system self
                              then pacekm2miles (spec_point_pace (pace_limit self) (velocity tr))
                              else Inr (spec_point_pace (pace_limit self) (velocity tr))) (track # rest)"
    using e yn ey by (simp add: y_values_add_point)
  from a b' c' d' e' show ?case by blast
qed

lemma point_series_pace:
  "\<exists>g. map_of (fold (\<lambda>(k, g). AList.update k g) (point_series self b) d) ''pace'' = Some g
       \<and> points g = []"
  by (simp add: point_series_def Let_def update_conv' GraphData_def set_color_def)

lemma init_graph_data_pace:
  assumes t: "tracklist self = Some tracks" and ne: "tracks \<noteq> []"
    and sp: "\<not> is_float_special (pace_limit self)"
  shows "\<exists>a gd gt. init_graph_data main self = Inr a
           \<and> map_of (distance_data a) ''pace'' = Some gd \<and> map_of (time_data a) ''pace'' = Some gt
           \<and> x_values gt = map (\<lambda>tr. PFloat (time_elapsed tr)) tracks
           \<and> map Inr (x_values gd)
               = map (\<lambda>tr. if us_system self then km2miles (PFloat (elapsed_distance tr))
                            else Inr (PFloat (elapsed_distance tr))) tracks
           \<and> map Inr (y_values gt)
               = map (\<lambda>tr. if us_system self
                            then pacekm2miles (spec_point_pace (pace_limit self) (velocity tr))
                            else Inr (spec_point_pace (pace_limit self) (velocity tr))) tracks
           \<and> y_values gd = y_values gt"
proof -
  from init_graph_data_total [OF sp, of main] obtain a where a: "init_graph_data main self = Inr a"
    by blast
  from init_graph_data_Inr [OF a t] obtain dd td where
    p: "point_loop self (getMaxHR main) tracks
          (fold (\<lambda>(k, g). AList.update k g) (point_series self False) (distance_data self),
           fold (\<lambda>(k, g). AList.update k g) (point_series self True) (time_data self)) = Inr (dd, td)"
    and da: "distance_data a = fst (add_zones self (getZones main) (prune dd, prune td))"
    and ta: "time_data a = snd (add_zones self (getZones main) (prune dd, prune td))"
    by blast
  from point_series_pace obtain gd0 where
    gd0: "map_of (fold (\<lambda>(k, g). AList.update k g) (point_series self False) (distance_data self)) ''pace''
            = Some gd0" "points gd0 = []"
    by blast
  from point_series_pace obtain gt0 where
    gt0: "map_of (fold (\<lambda>(k, g). AList.update k g) (point_series self True) (time_data self)) ''pace''
            = Some gt0" "points gt0 = []"
    by blast
  from point_loop_pace [OF sp p gd0(1) gt0(1)] obtain gd gt where
    g: "map_of dd ''pace'' = Some gd" "map_of td ''pace'' = Some gt"
    and xt: "x_values gt = map (\<lambda>tr. PFloat (time_elapsed tr)) tracks"
    and xd: "map Inr (x_values gd)
               = map (\<lambda>tr. if us_system self then km2miles (PFloat (elapsed_distance tr))
                            else Inr (PFloat (elapsed_distance tr))) tracks"
    and yt: "map Inr (y_values gt)
               = map (\<lambda>tr. if us_system self
                            then pacekm2miles (spec_point_pace (pace_limit self) (velocity tr))
                            else Inr (spec_point_pace (pace_limit self) (velocity tr))) tracks"
    and yd: "map Inr (y_values gd)
               = map (\<lambda>tr. if us_system self
                            then pacekm2miles (spec_point_pace (pace_limit self) (velocity tr))
                            else Inr (spec_point_pace (pace_limit self) (velocity tr))) tracks"
    using gd0(2) gt0(2) by (simp add: x_values_def y_values_def) blast
  have "map (Inr :: pyval \<Rightarrow> pyerr + pyval) (y_values gd) = map Inr (y_values gt)"
    by (simp only: yt yd)
  then have same: "y_values gd = y_values gt" by simp
  from xt have "length (points gt) = length tracks"
    by (metis length_map x_values_def)
  with ne have lt: "len gt \<noteq> 0" by (simp add: len_def)
  from xd have "length (points gd) = length tracks"
    by (metis length_map x_values_def)
  with ne have ld: "len gd \<noteq> 0" by (simp add: len_def)
  have "map_of (prune dd) ''pace'' = Some gd" "map_of (prune td) ''pace'' = Some gt"
    using g ld lt by (simp_all add: map_of_prune keep_def)
  with add_zones_other [of "''pace''" self "getZones main" "prune dd" "prune td"]
  have "map_of (distance_data a) ''pace'' = Some gd" "map_of (time_data a) ''pace'' = Some gt"
    unfolding da ta by simp_all
  with a xt xd yt same show ?thesis by blast
qed

section \<open>The loop over the laps\<close>

lemma lap_time_of_seconds:
  "reads_as_float (l_elapsed_time l) \<Longrightarrow> lap_time_of l = Inr (PFloat (lap_seconds l))"
  by (auto simp: reads_as_float_def lap_seconds_def lap_time_of_def split: sum.splits pyval.splits)

lemma lap_pace_spec: "lap_pace (PFloat t) (PFloat km) = Inr (PFloat (spec_lap_pace t km))"
  by (simp add: lap_pace_ff spec_lap_pace_def)

lemma lap_avg_speed_spec: "lap_avg_speed (PFloat t) (PFloat km) = Inr (PFloat (spec_lap_speed t km))"
  by (simp add: lap_avg_ff spec_lap_speed_def)

lemma limit_pace_spec:
  "\<not> is_float_special limit \<Longrightarrow>
   limit_pace limit (PFloat 0) (PFloat p) = Inr (PFloat (spec_clamp limit p))"
  by (cases limit) (simp_all add: limit_pace_def py_gt_def spec_clamp_def)

lemma lap_stmts_effect:
  assumes "k = ''pace_lap'' \<or> k = ''speed_lap''"
  shows "fold (stmt_effect addBars tg k)
           (lap_stmts self (PFloat (lap_seconds l)) (PFloat (l_distance l / 1000))
              (PFloat (spec_clamp (pace_limit self) (spec_lap_pace (lap_seconds l) (l_distance l / 1000))))
              (PFloat (spec_lap_speed (lap_seconds l) (l_distance l / 1000)))) g
         = addBars g (spec_lap_x self tg l) (spec_lap_y self k l)"
  using assms
  by (cases tg; cases "us_system self")
     (auto simp: lap_stmts_def stmt_effect_def spec_lap_x_def spec_lap_y_def km2miles_def
        pacekm2miles_def py_arith)

lemma lap_stmts_ok:
  "\<forall>s\<in>set (lap_stmts self (PFloat t) (PFloat km) (PFloat pc) (PFloat av)).
     fst (snd s) \<in> {''pace_lap'', ''speed_lap''}
     \<and> (\<exists>xv. fst (snd (snd s)) = Inr xv) \<and> (\<exists>yv. snd (snd (snd s)) = Inr yv)"
  by (cases "us_system self") (simp_all add: lap_stmts_def km2miles_def pacekm2miles_def py_arith)

lemma lap_loop_Cons:
  assumes sp: "\<not> is_float_special (pace_limit self)" and rf: "reads_as_float (l_elapsed_time l)"
  shows "lap_loop self (l # rest) (ld, lt, dd, td) =
     err_bind (run_adds addBars
                 (lap_stmts self (PFloat (lap_seconds l)) (PFloat (l_distance l / 1000))
                    (PFloat (spec_clamp (pace_limit self) (spec_lap_pace (lap_seconds l) (l_distance l / 1000))))
                    (PFloat (spec_lap_speed (lap_seconds l) (l_distance l / 1000))))
                 (dd, td))
       (\<lambda>(dd', td').
          lap_loop self rest
            (addBars ld (spec_lap_x self Dist l) (PInt 10),
             addBars lt (PFloat (lap_seconds l)) (PInt 10), dd', td'))"
proof -
  have d: "lap_dist_of l = Inr (PFloat (l_distance l / 1000))"
    by (simp add: lap_dist_of_def py_arith)
  have x: "(if us_system self then km2miles (PFloat (l_distance l / 1000))
            else Inr (PFloat (l_distance l / 1000))) = Inr (spec_lap_x self Dist l)"
    by (simp add: km2miles_def py_arith spec_lap_x_def)
  show ?thesis
    by (simp add: lap_time_of_seconds [OF rf] d lap_pace_spec lap_avg_speed_spec
        limit_pace_spec [OF sp] x)
qed

lemma lap_loop_series:
  assumes sp: "\<not> is_float_special (pace_limit self)"
    and k: "k = ''pace_lap'' \<or> k = ''speed_lap''"
  shows "list_all (\<lambda>l. reads_as_float (l_elapsed_time l)) ls \<Longrightarrow>
         {''pace_lap'', ''speed_lap''} \<subseteq> dom (map_of dd) \<Longrightarrow>
         {''pace_lap'', ''speed_lap''} \<subseteq> dom (map_of td) \<Longrightarrow>
         map_of (if tg = Dist then dd else td) k = Some g \<Longrightarrow>
         \<exists>ld' lt' dd' td' g'. lap_loop self ls (ld, lt, dd, td) = Inr (ld', lt', dd', td')
           \<and> map_of (if tg = Dist then dd' else td') k = Some g'
           \<and> points g' = points g
                @ map (\<lambda>l. (spec_lap_x self tg l, spec_lap_y self k l, PNone, PNone)) ls"
proof (induction ls arbitrary: ld lt dd td g)
  case Nil
  then show ?case by simp
next
  case (Cons l rest)
  let ?K = "{''pace_lap'', ''speed_lap''}"
  let ?stmts = "lap_stmts self (PFloat (lap_seconds l)) (PFloat (l_distance l / 1000))
                    (PFloat (spec_clamp (pace_limit self) (spec_lap_pace (lap_seconds l) (l_distance l / 1000))))
                    (PFloat (spec_lap_speed (lap_seconds l) (l_distance l / 1000)))"
  from Cons.prems(1) have rf: "reads_as_float (l_elapsed_time l)"
    and rr: "list_all (\<lambda>l. reads_as_float (l_elapsed_time l)) rest" by simp_all
  from run_adds_total [where K = ?K and add = addBars, OF lap_stmts_ok Cons.prems(2) Cons.prems(3)]
  obtain da ta where
    ra: "run_adds addBars ?stmts (dd, td) = Inr (da, ta)"
    and d: "dom (map_of da) = dom (map_of dd)" "dom (map_of ta) = dom (map_of td)"
    by blast
  from Cons.prems d have kk: "?K \<subseteq> dom (map_of da)" "?K \<subseteq> dom (map_of ta)" by simp_all
  from run_adds_lookup [OF ra, of k] Cons.prems(4)
  have g1: "map_of (if tg = Dist then da else ta) k
              = Some (addBars g (spec_lap_x self tg l) (spec_lap_y self k l))"
    by (cases tg) (simp_all add: lap_stmts_effect [OF k])
  from Cons.IH [OF rr kk g1] obtain ld' lt' dd' td' g' where
    r: "lap_loop self rest (addBars ld (spec_lap_x self Dist l) (PInt 10),
                            addBars lt (PFloat (lap_seconds l)) (PInt 10), da, ta)
          = Inr (ld', lt', dd', td')"
    and m: "map_of (if tg = Dist then dd' else td') k = Some g'"
    and p: "points g' = points (addBars g (spec_lap_x self tg l) (spec_lap_y self k l))
              @ map (\<lambda>l. (spec_lap_x self tg l, spec_lap_y self k l, PNone, PNone)) rest"
    by blast
  have "lap_loop self (l # rest) (ld, lt, dd, td) = Inr (ld', lt', dd', td')"
    by (subst lap_loop_Cons [OF sp rf]) (simp add: ra r)
  moreover from p have "points g' = points g
      @ map (\<lambda>l. (spec_lap_x self tg l, spec_lap_y self k l, PNone, PNone)) (l # rest)"
    by (simp add: addBars_def)
  ultimately show ?case using m by blast
qed

lemma lap_series_fresh:
  assumes "k = ''pace_lap'' \<or> k = ''speed_lap''"
  shows "\<exists>g. map_of (fold (\<lambda>(k, g). AList.update k g) (lap_series self b) d) k = Some g
       \<and> points g = []"
  using assms by (auto simp: lap_series_def Let_def update_conv' GraphData_def set_color_def)

lemma lap_series_keys:
  "{''pace_lap'', ''speed_lap''}
     \<subseteq> dom (map_of (fold (\<lambda>(k, g). AList.update k g) (lap_series self b) d))"
  by (simp add: lap_series_def Let_def update_conv')

lemma generate_per_lap_graphs_series:
  assumes ls: "laps self = Some ls" and sp: "\<not> is_float_special (pace_limit self)"
    and rf: "list_all (\<lambda>l. reads_as_float (l_elapsed_time l)) ls"
    and k: "k = ''pace_lap'' \<or> k = ''speed_lap''"
  shows "\<exists>a g. generate_per_lap_graphs self = Inr a
           \<and> has_data a = has_data self
           \<and> map_of (if tg = Dist then distance_data a else time_data a) k = Some g
           \<and> points g = map (\<lambda>l. (spec_lap_x self tg l, spec_lap_y self k l, PNone, PNone)) ls"
proof -
  let ?dd = "fold (\<lambda>(k, g). AList.update k g) (lap_series self False) (distance_data self)"
  let ?td = "fold (\<lambda>(k, g). AList.update k g) (lap_series self True) (time_data self)"
  have "\<exists>g0. map_of (if tg = Dist then ?dd else ?td) k = Some g0 \<and> points g0 = []"
    using lap_series_fresh [OF k, of self False "distance_data self"]
      lap_series_fresh [OF k, of self True "time_data self"]
    by (cases tg) simp_all
  then obtain g0 where g0: "map_of (if tg = Dist then ?dd else ?td) k = Some g0" "points g0 = []"
    by blast
  from lap_loop_series [OF sp k rf lap_series_keys lap_series_keys g0(1), of lap_marker lap_marker]
  obtain ld' lt' dd' td' g where
    r: "lap_loop self ls (lap_marker, lap_marker, ?dd, ?td) = Inr (ld', lt', dd', td')"
    and m: "map_of (if tg = Dist then dd' else td') k = Some g"
    and p: "points g = points g0
              @ map (\<lambda>l. (spec_lap_x self tg l, spec_lap_y self k l, PNone, PNone)) ls"
    by blast
  let ?a = "self\<lparr> lap_distance := Some ld', lap_time := Some lt',
                   distance_data := dd', time_data := td' \<rparr>"
  from ls r have "generate_per_lap_graphs self = Inr ?a"
    by (simp add: generate_per_lap_graphs_def)
  moreover have "has_data ?a = has_data self" by simp
  moreover from m have "map_of (if tg = Dist then distance_data ?a else time_data ?a) k = Some g"
    by (cases tg) simp_all
  moreover from p g0(2)
  have "points g = map (\<lambda>l. (spec_lap_x self tg l, spec_lap_y self k l, PNone, PNone)) ls"
    by simp
  ultimately show ?thesis by blast
qed

section \<open>The pace of every trackpoint\<close>

text \<open>
  Claim C2. The pace of a trackpoint is 60 divided by its velocity. A velocity of zero, or
  one that is no number (absent, or text), gives the pace 0 and no error. With a pace limit
  set, a pace above the limit becomes 0: with the limit 5.0 a pace of 7.2 is emitted as 0.
  \<^verbatim>\<open>_init_graph_data\<close>, run over a track list that is not empty, returns with a pace series by
  distance and one by time that hold one point for each trackpoint, in order: the x-value
  is the elapsed time, or the elapsed distance (converted in the imperial system), and the
  y-value is that pace of the trackpoint's velocity (converted to the mile in the imperial
  system, where 0 stays 0).
\<close>

theorem point_pace_claim:
  "(v \<noteq> 0 \<longrightarrow> point_pace PNone (PFloat v) = Inr (PFloat (60 / v)))
   \<and> (v \<noteq> 0 \<and> num_of limit = Some l \<longrightarrow>
        point_pace limit (PFloat v) = Inr (if 60 / v > l then PInt 0 else PFloat (60 / v)))
   \<and> point_pace limit (PFloat 0) = Inr (PInt 0)
   \<and> point_pace limit (PInt 0) = Inr (PInt 0)
   \<and> point_pace limit PNone = Inr (PInt 0)
   \<and> point_pace limit (PStr s) = Inr (PInt 0)
   \<and> point_pace (PFloat 5) (PFloat (60 / 7.2)) = Inr (PInt 0)
   \<and> pacekm2miles (PInt 0) = Inr (PFloat 0)
   \<and> (\<not> is_float_special limit \<longrightarrow> point_pace limit (PFloat v) = Inr (spec_point_pace limit v))
   \<and> (tracklist self = Some tracks \<and> tracks \<noteq> [] \<and> \<not> is_float_special (pace_limit self) \<longrightarrow>
        (\<exists>a gd gt. init_graph_data main self = Inr a
           \<and> map_of (distance_data a) ''pace'' = Some gd \<and> map_of (time_data a) ''pace'' = Some gt
           \<and> x_values gt = map (\<lambda>tr. PFloat (time_elapsed tr)) tracks
           \<and> map Inr (x_values gd)
               = map (\<lambda>tr. if us_system self then km2miles (PFloat (elapsed_distance tr))
                            else Inr (PFloat (elapsed_distance tr))) tracks
           \<and> map Inr (y_values gt)
               = map (\<lambda>tr. if us_system self
                            then pacekm2miles (spec_point_pace (pace_limit self) (velocity tr))
                            else Inr (spec_point_pace (pace_limit self) (velocity tr))) tracks
           \<and> y_values gd = y_values gt))"
proof -
  have a: "v \<noteq> 0 \<longrightarrow> point_pace PNone (PFloat v) = Inr (PFloat (60 / v))"
    by (simp add: point_pace_float)
  have b: "v \<noteq> 0 \<and> num_of limit = Some l \<longrightarrow>
        point_pace limit (PFloat v) = Inr (if 60 / v > l then PInt 0 else PFloat (60 / v))"
    by (cases limit) (auto simp add: point_pace_float)
  have c: "point_pace limit (PFloat 0) = Inr (PInt 0)"
    by (simp add: point_pace_float)
  have d: "point_pace (PFloat 5) (PFloat (60 / 7.2)) = Inr (PInt 0)"
    by (simp add: point_pace_float)
  have e: "pacekm2miles (PInt 0) = Inr (PFloat 0)"
    by (simp add: pacekm2miles_def py_arith)
  have f: "\<not> is_float_special limit \<longrightarrow> point_pace limit (PFloat v) = Inr (spec_point_pace limit v)"
    by (simp add: point_pace_spec)
  have g: "tracklist self = Some tracks \<and> tracks \<noteq> [] \<and> \<not> is_float_special (pace_limit self) \<longrightarrow>
        (\<exists>a gd gt. init_graph_data main self = Inr a
           \<and> map_of (distance_data a) ''pace'' = Some gd \<and> map_of (time_data a) ''pace'' = Some gt
           \<and> x_values gt = map (\<lambda>tr. PFloat (time_elapsed tr)) tracks
           \<and> map Inr (x_values gd)
               = map (\<lambda>tr. if us_system self then km2miles (PFloat (elapsed_distance tr))
                            else Inr (PFloat (elapsed_distance tr))) tracks
           \<and> map Inr (y_values gt)
               = map (\<lambda>tr. if us_system self
                            then pacekm2miles (spec_point_pace (pace_limit self) (velocity tr))
                            else Inr (spec_point_pace (pace_limit self) (velocity tr))) tracks
           \<and> y_values gd = y_values gt)"
    using init_graph_data_pace [of self tracks main] by blast
  from a b c d e f g point_pace_invalid [of limit s] show ?thesis
    by blast
qed

theorem point_pace_claim_witness:
  "point_pace PNone (PFloat 10) = Inr (PFloat 6)
   \<and> point_pace (PInt 5) (PFloat 10) = Inr (PInt 0)
   \<and> point_pace (PInt 5) (PFloat 20) = Inr (PFloat 3)
   \<and> point_pace (PInt 5) (PFloat 0) = Inr (PInt 0)
   \<and> point_pace (PInt 5) PNone = Inr (PInt 0)
   \<and> (\<exists>a gt gd. init_graph_data (example_main (PStr ''False'') None [example_row] None)
          (example_paced [example_point 1 300 20 None, example_point 2 600 (25 / 3) None,
                          example_point 3 900 0 None] []) = Inr a
        \<and> map_of (time_data a) ''pace'' = Some gt \<and> map_of (distance_data a) ''pace'' = Some gd
        \<and> x_values gt = [PFloat 300, PFloat 600, PFloat 900]
        \<and> y_values gt = [PFloat 3, PInt 0, PInt 0]
        \<and> x_values gd = [PFloat 1, PFloat 2, PFloat 3]
        \<and> y_values gd = [PFloat 3, PInt 0, PInt 0])"
proof -
  let ?M = "example_main (PStr ''False'') None [example_row] None"
  let ?T = "[example_point 1 300 20 None, example_point 2 600 (25 / 3) None, example_point 3 900 0 None]"
  let ?S = "example_paced ?T []"
  have h: "point_pace PNone (PFloat 10) = Inr (PFloat 6)"
    "point_pace (PInt 5) (PFloat 10) = Inr (PInt 0)"
    "point_pace (PInt 5) (PFloat 0) = Inr (PInt 0)"
    "point_pace (PInt 5) PNone = Inr (PInt 0)"
    using point_pace_claim [of 10 "PInt 5" 5] by simp_all
  have i: "point_pace (PInt 5) (PFloat 20) = Inr (PFloat 3)"
    using point_pace_claim [of 20 "PInt 5" 5] by simp
  have s: "tracklist ?S = Some ?T" "pace_limit ?S = PInt 5" "\<not> us_system ?S"
    by (simp_all add: example_paced_def with_system_def set_units_def Let_def example_activity_def)
  have hy: "tracklist ?S = Some ?T \<and> ?T \<noteq> [] \<and> \<not> is_float_special (pace_limit ?S)"
    by (simp add: s)
  from point_pace_claim [where self = ?S and tracks = ?T and main = ?M] hy
  obtain a gd gt where
    r: "init_graph_data ?M ?S = Inr a"
    and m: "map_of (distance_data a) ''pace'' = Some gd" "map_of (time_data a) ''pace'' = Some gt"
    and xt: "x_values gt = map (\<lambda>tr. PFloat (time_elapsed tr)) ?T"
    and xd: "map Inr (x_values gd)
               = map (\<lambda>tr. if us_system ?S then km2miles (PFloat (elapsed_distance tr))
                            else Inr (PFloat (elapsed_distance tr))) ?T"
    and yt: "map Inr (y_values gt)
               = map (\<lambda>tr. if us_system ?S
                            then pacekm2miles (spec_point_pace (pace_limit ?S) (velocity tr))
                            else Inr (spec_point_pace (pace_limit ?S) (velocity tr))) ?T"
    and yd: "y_values gd = y_values gt"
    by blast
  from xt have xt': "x_values gt = [PFloat 300, PFloat 600, PFloat 900]"
    by (simp add: example_point_def)
  from xd s(3) have "map (Inr :: pyval \<Rightarrow> pyerr + pyval) (x_values gd)
      = map Inr [PFloat 1, PFloat 2, PFloat 3]"
    by (simp add: example_point_def)
  then have xd': "x_values gd = [PFloat 1, PFloat 2, PFloat 3]"
    by (simp only: inj_map_eq_map [OF inj_Inr])
  from yt s have "map (Inr :: pyval \<Rightarrow> pyerr + pyval) (y_values gt)
      = map Inr [PFloat 3, PInt 0, PInt 0]"
    by (simp add: example_point_def spec_point_pace_def)
  then have yt': "y_values gt = [PFloat 3, PInt 0, PInt 0]"
    by (simp only: inj_map_eq_map [OF inj_Inr])
  from r m xt' xd' yt' yd h i show ?thesis by auto
qed

section \<open>The bars of every lap\<close>

text \<open>
  Claim C6. For a lap with elapsed time \<open>t\<close> seconds and distance \<open>km\<close>, the pace derived is
  \<open>t / (60 \<times> km)\<close> and the average speed derived is \<open>km / (t / 3600)\<close>; a division by zero gives
  0.0 and no error, so that a lap of distance zero has pace 0.0 and speed 0.0. The pace is
  then compared with the pace limit (lines 354-356): a pace above a limit that is set
  becomes 0.0. \<^verbatim>\<open>_generate_per_lap_graphs\<close>, run over laps whose elapsed time reads as a
  float, returns with the series \<^verbatim>\<open>pace_lap\<close> and \<^verbatim>\<open>speed_lap\<close>, by time and by distance,
  holding one bar for each lap, in order, whose y-value is that pace, or that speed
  (converted in the imperial system).
\<close>

theorem lap_derived_values:
  "lap_dist_of l = Inr (PFloat (l_distance l / 1000))
   \<and> lap_pace (PFloat t) (PFloat km) = Inr (PFloat (spec_lap_pace t km))
   \<and> lap_avg_speed (PFloat t) (PFloat km) = Inr (PFloat (spec_lap_speed t km))
   \<and> (km \<noteq> 0 \<longrightarrow> spec_lap_pace t km = t / (60 * km))
   \<and> (t \<noteq> 0 \<longrightarrow> spec_lap_speed t km = km / (t / 3600))
   \<and> spec_lap_pace t 0 = 0 \<and> spec_lap_speed t 0 = 0 \<and> spec_lap_speed 0 km = 0
   \<and> (\<not> is_float_special limit \<longrightarrow>
        limit_pace limit (PFloat 0) (PFloat p) = Inr (PFloat (spec_clamp limit p)))
   \<and> spec_clamp PNone p = p \<and> spec_clamp limit 0 = 0
   \<and> (num_of limit = Some m \<longrightarrow> spec_clamp limit p = (if p > m then 0 else p))
   \<and> (laps self = Some ls \<and> \<not> is_float_special (pace_limit self)
        \<and> list_all (\<lambda>l. reads_as_float (l_elapsed_time l)) ls \<longrightarrow>
        (\<exists>a gpt gst gpd gsd. generate_per_lap_graphs self = Inr a
           \<and> map_of (time_data a) ''pace_lap'' = Some gpt
           \<and> map_of (time_data a) ''speed_lap'' = Some gst
           \<and> map_of (distance_data a) ''pace_lap'' = Some gpd
           \<and> map_of (distance_data a) ''speed_lap'' = Some gsd
           \<and> points gpt = map (\<lambda>l. (spec_lap_x self Time l, spec_lap_y self ''pace_lap'' l, PNone, PNone)) ls
           \<and> points gst = map (\<lambda>l. (spec_lap_x self Time l, spec_lap_y self ''speed_lap'' l, PNone, PNone)) ls
           \<and> points gpd = map (\<lambda>l. (spec_lap_x self Dist l, spec_lap_y self ''pace_lap'' l, PNone, PNone)) ls
           \<and> points gsd = map (\<lambda>l. (spec_lap_x self Dist l, spec_lap_y self ''speed_lap'' l, PNone, PNone)) ls))"
proof -
  have a: "lap_dist_of l = Inr (PFloat (l_distance l / 1000))"
    by (simp add: lap_dist_of_def py_arith)
  have b: "(km \<noteq> 0 \<longrightarrow> spec_lap_pace t km = t / (60 * km))
      \<and> (t \<noteq> 0 \<longrightarrow> spec_lap_speed t km = km / (t / 3600))
      \<and> spec_lap_pace t 0 = 0 \<and> spec_lap_speed t 0 = 0 \<and> spec_lap_speed 0 km = 0"
    by (simp add: spec_lap_pace_def spec_lap_speed_def)
  have c: "spec_clamp PNone p = p \<and> spec_clamp limit 0 = 0
      \<and> (num_of limit = Some m \<longrightarrow> spec_clamp limit p = (if p > m then 0 else p))"
    by (simp add: spec_clamp_def split: option.splits)
  have d: "\<not> is_float_special limit \<longrightarrow>
        limit_pace limit (PFloat 0) (PFloat p) = Inr (PFloat (spec_clamp limit p))"
    by (simp add: limit_pace_spec)
  have e: "laps self = Some ls \<and> \<not> is_float_special (pace_limit self)
        \<and> list_all (\<lambda>l. reads_as_float (l_elapsed_time l)) ls \<longrightarrow>
        (\<exists>a gpt gst gpd gsd. generate_per_lap_graphs self = Inr a
           \<and> map_of (time_data a) ''pace_lap'' = Some gpt
           \<and> map_of (time_data a) ''speed_lap'' = Some gst
           \<and> map_of (distance_data a) ''pace_lap'' = Some gpd
           \<and> map_of (distance_data a) ''speed_lap'' = Some gsd
           \<and> points gpt = map (\<lambda>l. (spec_lap_x self Time l, spec_lap_y self ''pace_lap'' l, PNone, PNone)) ls
           \<and> points gst = map (\<lambda>l. (spec_lap_x self Time l, spec_lap_y self ''speed_lap'' l, PNone, PNone)) ls
           \<and> points gpd = map (\<lambda>l. (spec_lap_x self Dist l, spec_lap_y self ''pace_lap'' l, PNone, PNone)) ls
           \<and> points gsd = map (\<lambda>l. (spec_lap_x self Dist l, spec_lap_y self ''speed_lap'' l, PNone, PNone)) ls)"
  proof (intro impI, elim conjE)
    assume ls: "laps self = Some ls" and sp: "\<not> is_float_special (pace_limit self)"
      and rf: "list_all (\<lambda>l. reads_as_float (l_elapsed_time l)) ls"
    note g = generate_per_lap_graphs_series [OF ls sp rf]
    from g [of "''pace_lap''" Time] obtain a gpt where
      r: "generate_per_lap_graphs self = Inr a"
      and pt: "map_of (time_data a) ''pace_lap'' = Some gpt"
        "points gpt = map (\<lambda>l. (spec_lap_x self Time l, spec_lap_y self ''pace_lap'' l, PNone, PNone)) ls"
      by auto
    from g [of "''speed_lap''" Time] r obtain gst where
      st: "map_of (time_data a) ''speed_lap'' = Some gst"
        "points gst = map (\<lambda>l. (spec_lap_x self Time l, spec_lap_y self ''speed_lap'' l, PNone, PNone)) ls"
      by auto
    from g [of "''pace_lap''" Dist] r obtain gpd where
      pd: "map_of (distance_data a) ''pace_lap'' = Some gpd"
        "points gpd = map (\<lambda>l. (spec_lap_x self Dist l, spec_lap_y self ''pace_lap'' l, PNone, PNone)) ls"
      by auto
    from g [of "''speed_lap''" Dist] r obtain gsd where
      sd: "map_of (distance_data a) ''speed_lap'' = Some gsd"
        "points gsd = map (\<lambda>l. (spec_lap_x self Dist l, spec_lap_y self ''speed_lap'' l, PNone, PNone)) ls"
      by auto
    from r pt st pd sd show "\<exists>a gpt gst gpd gsd. generate_per_lap_graphs self = Inr a
           \<and> map_of (time_data a) ''pace_lap'' = Some gpt
           \<and> map_of (time_data a) ''speed_lap'' = Some gst
           \<and> map_of (distance_data a) ''pace_lap'' = Some gpd
           \<and> map_of (distance_data a) ''speed_lap'' = Some gsd
           \<and> points gpt = map (\<lambda>l. (spec_lap_x self Time l, spec_lap_y self ''pace_lap'' l, PNone, PNone)) ls
           \<and> points gst = map (\<lambda>l. (spec_lap_x self Time l, spec_lap_y self ''speed_lap'' l, PNone, PNone)) ls
           \<and> points gpd = map (\<lambda>l. (spec_lap_x self Dist l, spec_lap_y self ''pace_lap'' l, PNone, PNone)) ls
           \<and> points gsd = map (\<lambda>l. (spec_lap_x self Dist l, spec_lap_y self ''speed_lap'' l, PNone, PNone)) ls"
      by blast
  qed
  from a b c d e lap_pace_spec [of t km] lap_avg_speed_spec [of t km] show ?thesis
    by blast
qed

lemma example_lap_seconds:
  "reads_as_float ''300.0''" "reads_as_float ''432''" "reads_as_float ''100''"
  "lap_seconds (example_lap ''300.0'' d) = 300"
  "lap_seconds (example_lap ''432'' d) = 432"
  "lap_seconds (example_lap ''100'' d) = 100"
  by (simp_all add: reads_as_float_def lap_seconds_def lap_time_of_def example_lap_def
      float_parse_defs)

theorem lap_derived_values_witness:
  "lap_pace (PFloat 300) (PFloat 1) = Inr (PFloat 5)
   \<and> lap_avg_speed (PFloat 300) (PFloat 1) = Inr (PFloat 12)
   \<and> lap_pace (PFloat 300) (PFloat 0) = Inr (PFloat 0)
   \<and> lap_avg_speed (PFloat 300) (PFloat 0) = Inr (PFloat 0)
   \<and> (\<exists>a gp gs. generate_per_lap_graphs
          (example_paced [] [example_lap ''300.0'' 1000, example_lap ''432'' 1000, example_lap ''100'' 0])
          = Inr a
        \<and> map_of (time_data a) ''pace_lap'' = Some gp \<and> map_of (time_data a) ''speed_lap'' = Some gs
        \<and> x_values gp = [PFloat 300, PFloat 432, PFloat 100]
        \<and> y_values gp = [PFloat 5, PFloat 0, PFloat 0]
        \<and> y_values gs = [PFloat 12, PFloat (25 / 3), PFloat 0])"
proof -
  let ?L = "[example_lap ''300.0'' 1000, example_lap ''432'' 1000, example_lap ''100'' 0]"
  let ?S = "example_paced [] ?L"
  have h: "lap_pace (PFloat 300) (PFloat 1) = Inr (PFloat 5)"
    "lap_avg_speed (PFloat 300) (PFloat 1) = Inr (PFloat 12)"
    using lap_derived_values [of "example_lap ''300.0'' 1000" 300 1] by simp_all
  have i: "lap_pace (PFloat 300) (PFloat 0) = Inr (PFloat 0)"
    "lap_avg_speed (PFloat 300) (PFloat 0) = Inr (PFloat 0)"
    using lap_derived_values [of "example_lap ''300.0'' 1000" 300 0] by simp_all
  have s: "laps ?S = Some ?L" "pace_limit ?S = PInt 5" "\<not> us_system ?S"
    by (simp_all add: example_paced_def with_system_def set_units_def Let_def example_activity_def)
  have d: "l_distance (example_lap e m) = m" for e m
    by (simp add: example_lap_def)
  have rf: "list_all (\<lambda>l. reads_as_float (l_elapsed_time l)) ?L"
    by (simp add: example_lap_seconds) (simp add: example_lap_def example_lap_seconds)
  have hy: "laps ?S = Some ?L \<and> \<not> is_float_special (pace_limit ?S)
      \<and> list_all (\<lambda>l. reads_as_float (l_elapsed_time l)) ?L"
    using rf by (simp add: s)
  from lap_derived_values [where self = ?S and ls = ?L] hy
  obtain a gpt gst where
    r: "generate_per_lap_graphs ?S = Inr a"
    and m: "map_of (time_data a) ''pace_lap'' = Some gpt" "map_of (time_data a) ''speed_lap'' = Some gst"
    and p: "points gpt = map (\<lambda>l. (spec_lap_x ?S Time l, spec_lap_y ?S ''pace_lap'' l, PNone, PNone)) ?L"
      "points gst = map (\<lambda>l. (spec_lap_x ?S Time l, spec_lap_y ?S ''speed_lap'' l, PNone, PNone)) ?L"
    by blast
  from p(1) s have "x_values gpt = [PFloat 300, PFloat 432, PFloat 100]"
    "y_values gpt = [PFloat 5, PFloat 0, PFloat 0]"
    by (simp_all add: x_values_def y_values_def spec_lap_x_def spec_lap_y_def example_lap_seconds d
        spec_clamp_def spec_lap_pace_def)
  moreover from p(2) s have "y_values gst = [PFloat 12, PFloat (25 / 3), PFloat 0]"
    by (simp add: y_values_def spec_lap_y_def example_lap_seconds d spec_lap_speed_def)
  ultimately show ?thesis using r m h i by auto
qed

section \<open>An absent distance in the imperial system\<close>


section \<open>The constructor with an identifier\<close>





















end
